theory Spec2Isabelle
  imports Complex_Main
begin

section \<open>Data model: typed columns, dataframes, the object store\<close>

text \<open>
  The imputer of \<^verbatim>\<open>notebooks/DataCleaning.py\<close> works on pandas dataframes. A dataframe is
  modelled column-wise: a number of rows and a list of named, typed columns; a cell is
  either missing (\<open>None\<close>: NaN, None, NA) or holds a value. Numbers are idealised as
  reals. Console output (\<^verbatim>\<open>print\<close>) is not part of the state.

  The dtypes modelled: integers (\<open>Int64\<close>, the nullable integer dtype when values are
  missing), floats, booleans (\<open>Bool\<close>, values 0 and 1), \<open>Object\<close> (strings and anything else)
  and \<open>Category\<close> with its list of categories. Column names need not be distinct.
\<close>

datatype val = Num real | Str string

datatype dtype = Int64 | Float64 | Bool | Object | Category "val list"

type_synonym cell = "val option"

record column =
  cname :: string
  ctype :: dtype
  cells :: "cell list"

record dataframe =
  nrows :: nat
  columns :: "column list"

datatype error =
  KeyError | TypeError | ValueError | FileNotFoundError | OSError | LibraryError string | DanglingRef

datatype task = Regression | Classification

text \<open>
  The estimator is library code (scikit-learn) and is a parameter of the model.
  \<open>fit_pipeline\<close> stands for lines 56--71 of \<^verbatim>\<open>train_imputation_model\<close>: it builds the
  preprocessing pipeline for the given numeric and categorical feature names, splits,
  fits and scores (the score is only printed); it yields the fitted estimator or the
  exception raised. \<open>predict\<close> is \<^verbatim>\<open>pipeline.predict\<close>.
\<close>

record 'm learner =
  fit_pipeline :: "task \<Rightarrow> string list \<Rightarrow> string list \<Rightarrow> dataframe \<Rightarrow> val list \<Rightarrow> error + 'm"
  predict :: "'m \<Rightarrow> dataframe \<Rightarrow> error + val list"

text \<open>
  The persisted artifact: the fitted pipeline together with the column names its
  preprocessor saw at fit time (\<^verbatim>\<open>feature_names_in_\<close>).
\<close>

record 'm pipeline =
  feature_names_in :: "string list"
  fitted :: 'm

text \<open>
  Dataframes are mutable objects passed by reference: the heap maps an address (a position
  in the list) to the object stored there. Of the file system the world holds the
  directories \<^verbatim>\<open>os.makedirs\<close> has been called on (\<open>dirs\<close>), the pickled pipelines by path
  (\<open>files\<close>) and the paths the operating system refuses to create or to open for writing,
  for a missing parent directory, a permission or a name clash (\<open>unwritable\<close>).
\<close>

record 'm world =
  heap :: "dataframe list"
  dirs :: "string set"
  files :: "string \<rightharpoonup> 'm pipeline"
  unwritable :: "string set"

definition deref :: "'m world \<Rightarrow> nat \<Rightarrow> dataframe option" where
  "deref w r = (if r < length (heap w) then Some (heap w ! r) else None)"

definition alloc :: "dataframe \<Rightarrow> 'm world \<Rightarrow> nat \<times> 'm world" where
  "alloc d w = (length (heap w), w\<lparr>heap := heap w @ [d]\<rparr>)"

section \<open>The pandas and numpy operations the code calls\<close>

text \<open>
  \<^verbatim>\<open>pd.api.types.is_numeric_dtype\<close> and \<^verbatim>\<open>is_object_dtype\<close> on the dtype of a column. Applied
  to \<^verbatim>\<open>df[col]\<close> for a name that several columns share (a dataframe, which has no dtype)
  both answer False; see \<open>eligible_cols\<close>.
\<close>

fun is_numeric_dtype :: "dtype \<Rightarrow> bool" where
  "is_numeric_dtype Int64 = True"
| "is_numeric_dtype Float64 = True"
| "is_numeric_dtype Bool = True"
| "is_numeric_dtype _ = False"

fun is_object_dtype :: "dtype \<Rightarrow> bool" where
  "is_object_dtype Object = True"
| "is_object_dtype _ = False"

text \<open>\<^verbatim>\<open>select_dtypes(include=['object', 'category'])\<close> and \<^verbatim>\<open>select_dtypes(include=['number'])\<close>.\<close>

fun is_object_or_category :: "dtype \<Rightarrow> bool" where
  "is_object_or_category Object = True"
| "is_object_or_category (Category cats) = True"
| "is_object_or_category _ = False"

fun is_number :: "dtype \<Rightarrow> bool" where
  "is_number Int64 = True"
| "is_number Float64 = True"
| "is_number _ = False"

definition null_count :: "column \<Rightarrow> nat" where
  "null_count c = length (filter (\<lambda>x. x = None) (cells c))"

definition cell_at :: "column \<Rightarrow> nat \<Rightarrow> cell" where
  "cell_at c i = (if i < length (cells c) then cells c ! i else None)"

text \<open>
  \<^verbatim>\<open>df[n]\<close>: with no column of that name it raises KeyError, with exactly one it is that
  column (a Series), with several it is a dataframe of all of them. \<open>get_col\<close> is the
  column when \<^verbatim>\<open>df[n]\<close> is a Series.
\<close>

definition columns_named :: "dataframe \<Rightarrow> string \<Rightarrow> column list" where
  "columns_named df n = filter (\<lambda>c. cname c = n) (columns df)"

definition get_col :: "dataframe \<Rightarrow> string \<Rightarrow> column option" where
  "get_col df n = (case columns_named df n of [c] \<Rightarrow> Some c | _ \<Rightarrow> None)"

text \<open>\<^verbatim>\<open>df.dropna(axis=0, how='all')\<close>: a new frame without the rows whose cells are all missing.\<close>

definition row_has_value :: "dataframe \<Rightarrow> nat \<Rightarrow> bool" where
  "row_has_value df i = list_ex (\<lambda>c. cell_at c i \<noteq> None) (columns df)"

definition dropna_all :: "dataframe \<Rightarrow> dataframe" where
  "dropna_all df =
     (let keep = filter (row_has_value df) [0..<nrows df]
      in \<lparr>nrows = length keep,
          columns = map (\<lambda>c. c\<lparr>cells := map (cell_at c) keep\<rparr>) (columns df)\<rparr>)"

definition mask_sum :: "bool list \<Rightarrow> nat" where
  "mask_sum msk = length (filter (\<lambda>b. b) msk)"

definition select_rows :: "bool list \<Rightarrow> 'a list \<Rightarrow> 'a list" where
  "select_rows msk xs = map fst (filter snd (zip xs msk))"

text \<open>
  \<^verbatim>\<open>df.loc[mask, names]\<close>: the masked rows of the named columns, every column of a shared
  name included; a name that is no column raises.
\<close>

fun loc_columns :: "dataframe \<Rightarrow> bool list \<Rightarrow> string list \<Rightarrow> error + column list" where
  "loc_columns df msk [] = Inr []"
| "loc_columns df msk (n # ns) =
     (case columns_named df n of
        [] \<Rightarrow> Inl KeyError
      | c # cs' \<Rightarrow>
          (case loc_columns df msk ns of
             Inl e \<Rightarrow> Inl e
           | Inr cs \<Rightarrow>
               Inr (map (\<lambda>c. c\<lparr>cells := select_rows msk (cells c)\<rparr>) (c # cs') @ cs)))"

definition loc :: "dataframe \<Rightarrow> bool list \<Rightarrow> string list \<Rightarrow> error + dataframe" where
  "loc df msk names =
     (case loc_columns df msk names of
        Inl e \<Rightarrow> Inl e
      | Inr cs \<Rightarrow> Inr \<lparr>nrows = mask_sum msk, columns = cs\<rparr>)"

text \<open>The non-missing values of a column, in row order (\<^verbatim>\<open>df.loc[mask, target_column]\<close> for the \<^verbatim>\<open>notna\<close> mask).\<close>

fun present :: "cell list \<Rightarrow> val list" where
  "present [] = []"
| "present (None # cs) = present cs"
| "present (Some v # cs) = v # present cs"

text \<open>\<^verbatim>\<open>np.maximum(0, predicted_values)\<close>: numbers are clamped from below; a string has no order with 0.\<close>

fun np_maximum0 :: "val list \<Rightarrow> error + val list" where
  "np_maximum0 [] = Inr []"
| "np_maximum0 (Str s # ps) = Inl TypeError"
| "np_maximum0 (Num x # ps) =
     (case np_maximum0 ps of
        Inl e \<Rightarrow> Inl e
      | Inr qs \<Rightarrow> Inr (Num (max 0 x) # qs))"

text \<open>
  \<^verbatim>\<open>df.loc[mask, target_column] = predicted_values\<close> for the \<^verbatim>\<open>isnull\<close> mask of a target
  that is the one column of its name: the values go to the missing positions in row order.
  The number of values must be the number of positions (ValueError), and the column's
  dtype must be able to hold every value (TypeError): an integer column holds whole
  numbers only, a boolean column 0 and 1, a categorical column its categories, a float
  column numbers, an object column anything. The column keeps its dtype.
\<close>

fun storable :: "dtype \<Rightarrow> val \<Rightarrow> bool" where
  "storable Float64 (Num x) = True"
| "storable Int64 (Num x) = (x = of_int \<lfloor>x\<rfloor>)"
| "storable Bool (Num x) = (x = 0 \<or> x = 1)"
| "storable Object v = True"
| "storable (Category cats) v = (v \<in> set cats)"
| "storable _ (Str s) = False"

fun fill_missing :: "cell list \<Rightarrow> val list \<Rightarrow> cell list" where
  "fill_missing [] ps = []"
| "fill_missing (Some v # cs) ps = Some v # fill_missing cs ps"
| "fill_missing (None # cs) [] = None # fill_missing cs []"
| "fill_missing (None # cs) (p # ps) = Some p # fill_missing cs ps"

fun set_first :: "string \<Rightarrow> cell list \<Rightarrow> column list \<Rightarrow> column list" where
  "set_first n xs [] = []"
| "set_first n xs (c # cs) =
     (if cname c = n then c\<lparr>cells := xs\<rparr> # cs else c # set_first n xs cs)"

definition set_cells :: "dataframe \<Rightarrow> string \<Rightarrow> cell list \<Rightarrow> dataframe" where
  "set_cells df n xs = df\<lparr>columns := set_first n xs (columns df)\<rparr>"

definition loc_assign :: "dataframe \<Rightarrow> column \<Rightarrow> val list \<Rightarrow> error + dataframe" where
  "loc_assign df tc ps =
     (if length ps \<noteq> null_count tc then Inl ValueError
      else if \<not> list_all (storable (ctype tc)) ps then Inl TypeError
      else Inr (set_cells df (cname tc) (fill_missing (cells tc) ps)))"

text \<open>\<^verbatim>\<open>os.path.join(model_dir, f'{target_column}_model.pkl')\<close> on a POSIX system.\<close>

definition path_join :: "string \<Rightarrow> string \<Rightarrow> string" where
  "path_join a b =
     (if b \<noteq> [] \<and> hd b = CHR ''/'' then b
      else if a = [] \<or> last a = CHR ''/'' then a @ b
      else a @ ''/'' @ b)"

definition model_path :: "string \<Rightarrow> string \<Rightarrow> string" where
  "model_path model_dir target_column = path_join model_dir (target_column @ ''_model.pkl'')"

section \<open>The imputer\<close>

definition detect_column_types :: "dataframe \<Rightarrow> string list \<times> string list" where
  "detect_column_types df =
     (map cname (filter (\<lambda>c. is_object_or_category (ctype c)) (columns df)),
      map cname (filter (\<lambda>c. is_number (ctype c)) (columns df)))"

text \<open>
  The feature list of line 30, on the frame without its fully-empty rows. For a column
  other than the target whose name another column shares, \<^verbatim>\<open>df[col].isnull().sum() == 0\<close> is
  a Series of several truth values and the \<^verbatim>\<open>and\<close> raises ValueError: \<open>shared_feature_name\<close>.
\<close>

definition shared_feature_name :: "dataframe \<Rightarrow> string \<Rightarrow> bool" where
  "shared_feature_name df target_column =
     list_ex (\<lambda>c. cname c \<noteq> target_column \<and> get_col df (cname c) = None) (columns df)"

definition features_of :: "dataframe \<Rightarrow> string \<Rightarrow> string list" where
  "features_of df target_column =
     map cname (filter (\<lambda>c. cname c \<noteq> target_column \<and> null_count c = 0) (columns df))"

text \<open>
  Each operation takes the world and returns its outcome together with the world it
  leaves behind, so that what an exception leaves behind is part of the model too. An
  outcome is \<open>Inl\<close> of the exception raised or \<open>Inr\<close> of the value returned; a dataframe is
  passed and returned as its address. \<open>DanglingRef\<close> answers an address that names no
  object, which no caller of the code can pass. In \<open>train_imputation_model\<close> the local name
  \<open>df\<close> is rebound to the new object \<^verbatim>\<open>dropna\<close> returns. \<^verbatim>\<open>os.makedirs\<close> raises on the empty
  path and on a path the system refuses, \<^verbatim>\<open>joblib.dump\<close> on a path it refuses (among them
  the path of a column whose name contains a slash, unless the directory it falls in
  exists). A target name that several columns share makes \<^verbatim>\<open>df[target_column]\<close> a
  dataframe: in training the row lookup of line 34 does not find its labels (KeyError), in
  imputation the test of line 92 has no single truth value (ValueError).
\<close>

definition train_imputation_model ::
  "'m learner \<Rightarrow> nat \<Rightarrow> string \<Rightarrow> string \<Rightarrow> 'm world
     \<Rightarrow> (error + ('m pipeline \<times> string list) option) \<times> 'm world" where
  "train_imputation_model L df_ref target_column model_dir w =
     (let w1 = w\<lparr>dirs := insert model_dir (dirs w)\<rparr> in
      if model_dir = [] then (Inl FileNotFoundError, w1)
      else if model_dir \<in> unwritable w then (Inl OSError, w1)
      else
      case deref w1 df_ref of
        None \<Rightarrow> (Inl DanglingRef, w1)
      | Some df0 \<Rightarrow>
          let df = dropna_all df0;
              (df_local, w2) = alloc df w1;
              (categorical_cols, numeric_cols) = detect_column_types df
          in if shared_feature_name df target_column then (Inl ValueError, w2)
             else
             let features = features_of df target_column
             in case columns_named df target_column of
               [] \<Rightarrow> (Inl KeyError, w2)
             | _ # _ # _ \<Rightarrow> (Inl KeyError, w2)
             | [tc] \<Rightarrow>
                 let mask = map (\<lambda>x. x \<noteq> None) (cells tc) in
                 (case loc df mask features of
                    Inl e \<Rightarrow> (Inl e, w2)
                  | Inr X \<Rightarrow>
                      let y = present (cells tc) in
                      if nrows X < 10 then (Inr None, w2)
                      else
                        let model_type =
                              (if is_numeric_dtype (ctype tc) then Regression else Classification);
                            cat_features = filter (\<lambda>c. c \<in> set categorical_cols) features;
                            num_features = filter (\<lambda>c. c \<in> set numeric_cols) features
                        in case fit_pipeline L model_type num_features cat_features X y of
                             Inl e \<Rightarrow> (Inl e, w2)
                           | Inr m \<Rightarrow>
                               let pipeline = \<lparr>feature_names_in = features, fitted = m\<rparr>;
                                   path = model_path model_dir target_column
                               in if path \<in> unwritable w then (Inl OSError, w2)
                                  else (Inr (Some (pipeline, features)),
                                        w2\<lparr>files := (files w2)(path \<mapsto> pipeline)\<rparr>)))"

definition impute_missing_values ::
  "'m learner \<Rightarrow> nat \<Rightarrow> string \<Rightarrow> string \<Rightarrow> 'm world \<Rightarrow> (error + nat) \<times> 'm world" where
  "impute_missing_values L df_ref target_column model_dir w =
     (case files w (model_path model_dir target_column) of
        None \<Rightarrow> (Inr df_ref, w)
      | Some pipeline \<Rightarrow>
          let feature_names = feature_names_in pipeline in
          (case deref w df_ref of
             None \<Rightarrow> (Inl DanglingRef, w)
           | Some df \<Rightarrow>
               (case columns_named df target_column of
                  [] \<Rightarrow> (Inl KeyError, w)
                | _ # _ # _ \<Rightarrow> (Inl ValueError, w)
                | [tc] \<Rightarrow>
                    let mask = map (\<lambda>x. x = None) (cells tc) in
                    if mask_sum mask = 0 then (Inr df_ref, w)
                    else
                      (case loc df mask feature_names of
                         Inl e \<Rightarrow> (Inl e, w)
                       | Inr X_missing \<Rightarrow>
                           (case predict L (fitted pipeline) X_missing of
                              Inl e \<Rightarrow> (Inl e, w)
                            | Inr predicted_values \<Rightarrow>
                                (case (if is_numeric_dtype (ctype tc)
                                       then np_maximum0 predicted_values
                                       else Inr predicted_values) of
                                   Inl e \<Rightarrow> (Inl e, w)
                                 | Inr clamped \<Rightarrow>
                                     (case loc_assign df tc clamped of
                                        Inl e \<Rightarrow> (Inl e, w)
                                      | Inr df' \<Rightarrow>
                                          (Inr df_ref,
                                           w\<lparr>heap := (heap w)[df_ref := df']\<rparr>))))))))"

text \<open>The loop of lines 120--123: train, and impute when a model came back.\<close>

fun impute_loop ::
  "'m learner \<Rightarrow> string \<Rightarrow> string list \<Rightarrow> nat \<Rightarrow> 'm world \<Rightarrow> (error + nat) \<times> 'm world" where
  "impute_loop L model_dir [] df w = (Inr df, w)"
| "impute_loop L model_dir (col # cols) df w =
     (case train_imputation_model L df col model_dir w of
        (Inl e, w1) \<Rightarrow> (Inl e, w1)
      | (Inr None, w1) \<Rightarrow> impute_loop L model_dir cols df w1
      | (Inr (Some model), w1) \<Rightarrow>
          (case impute_missing_values L df col model_dir w1 of
             (Inl e, w2) \<Rightarrow> (Inl e, w2)
           | (Inr df', w2) \<Rightarrow> impute_loop L model_dir cols df' w2))"

text \<open>
  Lines 112--118. \<^verbatim>\<open>target_cols\<close> is taken by position; the dtype tests read \<^verbatim>\<open>df[col]\<close> by
  name, and for a name several columns share both are False.
\<close>

definition eligible_cols :: "dataframe \<Rightarrow> string list" where
  "eligible_cols df =
     (let target_cols = filter (\<lambda>c. null_count c > 0) (columns df)
      in map cname
           (filter (\<lambda>c. case get_col df (cname c) of
                          None \<Rightarrow> False
                        | Some s \<Rightarrow> is_numeric_dtype (ctype s) \<or> is_object_dtype (ctype s))
              target_cols))"

definition fill_null_ML ::
  "'m learner \<Rightarrow> nat \<Rightarrow> string \<Rightarrow> 'm world \<Rightarrow> (error + nat) \<times> 'm world" where
  "fill_null_ML L df_ref model_dir w =
     (case deref w df_ref of
        None \<Rightarrow> (Inl DanglingRef, w)
      | Some d \<Rightarrow>
          let (df, w1) = alloc d w
          in impute_loop L model_dir (eligible_cols d) df w1)"

section \<open>Vocabulary of the properties\<close>

text \<open>
  The number of labelled rows the training step sees for a target: the rows with a
  non-missing target after the fully-empty rows are dropped (\<^verbatim>\<open>X.shape[0]\<close>, line 37).
\<close>

definition labeled_rows :: "dataframe \<Rightarrow> string \<Rightarrow> nat" where
  "labeled_rows df target_column =
     (case get_col (dropna_all df) target_column of
        None \<Rightarrow> 0
      | Some tc \<Rightarrow> mask_sum (map (\<lambda>x. x \<noteq> None) (cells tc)))"

text \<open>The cells of a named column of the dataframe a call returned, when it returned one.\<close>

definition result_cells :: "(error + nat) \<times> 'm world \<Rightarrow> string \<Rightarrow> cell list option" where
  "result_cells out n =
     (case fst out of
        Inl e \<Rightarrow> None
      | Inr r \<Rightarrow>
          (case deref (snd out) r of
             None \<Rightarrow> None
           | Some d \<Rightarrow> map_option cells (get_col d n)))"

text \<open>
  \<open>frame_fills T d d'\<close>: the dataframe \<open>d'\<close> is \<open>d\<close> with some missing cells filled in. Both
  have the same number of rows and, position by position, columns of the same name and
  dtype; every cell that holds a value in \<open>d\<close> holds the same value in \<open>d'\<close>; and a column
  whose name is not in \<open>T\<close> is the same column in both.
\<close>

definition cell_fills :: "cell \<Rightarrow> cell \<Rightarrow> bool" where
  "cell_fills x x' = (x = None \<or> x' = x)"

definition column_fills :: "string set \<Rightarrow> column \<Rightarrow> column \<Rightarrow> bool" where
  "column_fills T c c' =
     (cname c' = cname c \<and> ctype c' = ctype c \<and> list_all2 cell_fills (cells c) (cells c') \<and>
      (cname c \<in> T \<or> c' = c))"

definition frame_fills :: "string set \<Rightarrow> dataframe \<Rightarrow> dataframe \<Rightarrow> bool" where
  "frame_fills T d d' =
     (nrows d' = nrows d \<and> list_all2 (column_fills T) (columns d) (columns d'))"

text \<open>Which cells of a dataframe are missing, column by column.\<close>

definition missing_cells :: "dataframe \<Rightarrow> (string \<times> bool list) list" where
  "missing_cells d = map (\<lambda>c. (cname c, map (\<lambda>x. x = None) (cells c))) (columns d)"

text \<open>The total number of non-missing cells of a dataframe.\<close>

definition present_count :: "dataframe \<Rightarrow> nat" where
  "present_count d = sum_list (map (\<lambda>c. length (filter (\<lambda>x. x \<noteq> None) (cells c))) (columns d))"

text \<open>
  The pipeline with the loop of line 120 run over a given list of columns instead of
  \<open>eligible_cols\<close>: the variant the statement about processing orders speaks of.
\<close>

definition process_in_order ::
  "'m learner \<Rightarrow> nat \<Rightarrow> string \<Rightarrow> string list \<Rightarrow> 'm world \<Rightarrow> (error + nat) \<times> 'm world" where
  "process_in_order L df_ref model_dir order w =
     (case deref w df_ref of
        None \<Rightarrow> (Inl DanglingRef, w)
      | Some d \<Rightarrow>
          let (df, w1) = alloc d w
          in impute_loop L model_dir order df w1)"

text \<open>
  The columns the code treats as imputation targets: at least one missing value, the only
  column of its name, and a numeric or object dtype.
\<close>

definition is_target :: "dataframe \<Rightarrow> column \<Rightarrow> bool" where
  "is_target d c =
     (0 < null_count c \<and> get_col d (cname c) = Some c \<and>
      (is_numeric_dtype (ctype c) \<or> is_object_dtype (ctype c)))"

text \<open>
  The columns the specification names as targets: at least one missing value and a
  numeric or text/categorical dtype, the latter as \<open>detect_column_types\<close> classifies it.
\<close>

definition spec_targets :: "dataframe \<Rightarrow> string list" where
  "spec_targets df =
     map cname
       (filter (\<lambda>c. null_count c > 0 \<and>
                  (is_numeric_dtype (ctype c) \<or> cname c \<in> set (fst (detect_column_types df))))
          (columns df))"

section \<open>A concrete estimator and concrete datasets\<close>

text \<open>
  For closed evaluations the estimator parameter is instantiated with a lookup table: it
  memorises the training rows over the features the preprocessor uses and predicts the
  label of the first training row equal to the query, or the first label when there is
  none. Like the library's estimators it refuses an empty feature matrix.
\<close>

type_synonym table_model = "string list \<times> (cell list \<times> val) list"

definition row_at :: "dataframe \<Rightarrow> string list \<Rightarrow> nat \<Rightarrow> cell list" where
  "row_at X names i =
     map (\<lambda>n. case get_col X n of None \<Rightarrow> None | Some c \<Rightarrow> cell_at c i) names"

definition table_fit ::
  "task \<Rightarrow> string list \<Rightarrow> string list \<Rightarrow> dataframe \<Rightarrow> val list \<Rightarrow> error + table_model" where
  "table_fit t num_features cat_features X y =
     (let used = num_features @ cat_features in
      if used = [] then Inl (LibraryError ''Found array with 0 feature(s)'')
      else Inr (used, zip (map (row_at X used) [0..<nrows X]) y))"

definition table_predict :: "table_model \<Rightarrow> dataframe \<Rightarrow> error + val list" where
  "table_predict m X =
     Inr (map (\<lambda>i. case find (\<lambda>(r, v). r = row_at X (fst m) i) (snd m) of
                      Some (r, v) \<Rightarrow> v
                    | None \<Rightarrow> (case snd m of [] \<Rightarrow> Num 0 | (r, v) # _ \<Rightarrow> v))
              [0..<nrows X])"

definition table_learner :: "table_model learner" where
  "table_learner = \<lparr>fit_pipeline = table_fit, predict = table_predict\<rparr>"

text \<open>
  A dataset of eleven videos: \<open>likes\<close> misses one value, \<open>rating\<close> has only six values,
  and \<open>genre\<close> (dtype category) misses one value.
\<close>

definition videos :: dataframe where
  "videos = \<lparr>nrows = 11, columns =
     [\<lparr>cname = ''views'', ctype = Int64, cells =
         [Some (Num 1), Some (Num 2), Some (Num 3), Some (Num 4), Some (Num 5), Some (Num 6),
          Some (Num 7), Some (Num 8), Some (Num 9), Some (Num 10), Some (Num 11)]\<rparr>,
      \<lparr>cname = ''likes'', ctype = Float64, cells =
         [None, Some (Num (-5)), Some (Num 2), Some (Num 3), Some (Num 4), Some (Num 5),
          Some (Num 6), Some (Num 7), Some (Num 8), Some (Num 9), Some (Num 10)]\<rparr>,
      \<lparr>cname = ''title'', ctype = Object, cells =
         [Some (Str ''a''), Some (Str ''b''), Some (Str ''c''), Some (Str ''d''),
          Some (Str ''e''), Some (Str ''f''), Some (Str ''g''), Some (Str ''h''),
          Some (Str ''i''), Some (Str ''j''), Some (Str ''k'')]\<rparr>,
      \<lparr>cname = ''rating'', ctype = Float64, cells =
         [Some (Num 1), Some (Num 2), Some (Num 3), Some (Num 4), Some (Num 5), Some (Num 1),
          None, None, None, None, None]\<rparr>,
      \<lparr>cname = ''genre'', ctype = Category [Str ''x'', Str ''y''], cells =
         [Some (Str ''x''), Some (Str ''y''), None, Some (Str ''x''), Some (Str ''x''),
          Some (Str ''x''), Some (Str ''x''), Some (Str ''x''), Some (Str ''x''),
          Some (Str ''x''), Some (Str ''x'')]\<rparr>]\<rparr>"

definition studio :: "table_model world" where
  "studio = \<lparr>heap = [videos], dirs = {}, files = Map.empty, unwritable = {}\<rparr>"

text \<open>The same world on a system that refuses to create the model directory.\<close>

definition locked_studio :: "table_model world" where
  "locked_studio = studio\<lparr>unwritable := {''impute_models''}\<rparr>"

text \<open>The same world with an artifact for \<open>views\<close> left behind by an earlier run.\<close>

definition studio_with_artifact :: "table_model world" where
  "studio_with_artifact =
     studio\<lparr>files := [model_path ''impute_models'' ''views'' \<mapsto>
                       \<lparr>feature_names_in = [''title''], fitted = ([''title''], [])\<rparr>]\<rparr>"

text \<open>
  Three columns: \<open>a\<close> and \<open>b\<close> miss one value each, in different rows; \<open>c\<close> is complete.
\<close>

definition trio :: dataframe where
  "trio = \<lparr>nrows = 11, columns =
     [\<lparr>cname = ''a'', ctype = Float64, cells =
         [None, Some (Num 1), Some (Num 2), Some (Num 3), Some (Num 4), Some (Num 5),
          Some (Num 6), Some (Num 7), Some (Num 8), Some (Num 9), Some (Num 10)]\<rparr>,
      \<lparr>cname = ''b'', ctype = Float64, cells =
         [Some (Num 20), None, Some (Num 22), Some (Num 23), Some (Num 24), Some (Num 25),
          Some (Num 26), Some (Num 27), Some (Num 28), Some (Num 29), Some (Num 30)]\<rparr>,
      \<lparr>cname = ''c'', ctype = Object, cells =
         [Some (Str ''u''), Some (Str ''v''), Some (Str ''v''), Some (Str ''w''),
          Some (Str ''w''), Some (Str ''w''), Some (Str ''w''), Some (Str ''w''),
          Some (Str ''w''), Some (Str ''w''), Some (Str ''w'')]\<rparr>]\<rparr>"

definition trio_world :: "table_model world" where
  "trio_world = \<lparr>heap = [trio], dirs = {}, files = Map.empty, unwritable = {}\<rparr>"

text \<open>Two columns and a first row that is entirely empty.\<close>

definition gappy :: dataframe where
  "gappy = \<lparr>nrows = 11, columns =
     [\<lparr>cname = ''a'', ctype = Float64, cells =
         [None, Some (Num 1), Some (Num 2), Some (Num 3), Some (Num 4), Some (Num 5),
          Some (Num 6), Some (Num 7), Some (Num 8), Some (Num 9), Some (Num 10)]\<rparr>,
      \<lparr>cname = ''c'', ctype = Object, cells =
         [None, Some (Str ''p''), Some (Str ''q''), Some (Str ''p''), Some (Str ''q''),
          Some (Str ''p''), Some (Str ''q''), Some (Str ''p''), Some (Str ''q''),
          Some (Str ''p''), Some (Str ''q'')]\<rparr>]\<rparr>"

definition gappy_world :: "table_model world" where
  "gappy_world = \<lparr>heap = [gappy], dirs = {}, files = Map.empty, unwritable = {}\<rparr>"

text \<open>
  A dataset with shared column names: two columns \<open>x\<close> with a missing value each, a column
  \<open>rating\<close> with two values, and two complete columns \<open>y\<close>.
\<close>

definition doubled :: dataframe where
  "doubled = \<lparr>nrows = 3, columns =
     [\<lparr>cname = ''x'', ctype = Float64, cells = [Some (Num 1), None, Some (Num 3)]\<rparr>,
      \<lparr>cname = ''x'', ctype = Float64, cells = [Some (Num 4), Some (Num 5), None]\<rparr>,
      \<lparr>cname = ''rating'', ctype = Float64, cells = [Some (Num 1), None, Some (Num 2)]\<rparr>,
      \<lparr>cname = ''y'', ctype = Float64, cells = [Some (Num 7), Some (Num 8), Some (Num 9)]\<rparr>,
      \<lparr>cname = ''y'', ctype = Float64, cells = [Some (Num 4), Some (Num 5), Some (Num 6)]\<rparr>]\<rparr>"

definition doubled_world :: "table_model world" where
  "doubled_world =
     \<lparr>heap = [doubled], dirs = {},
      files = [model_path ''impute_models'' ''y'' \<mapsto>
                 \<lparr>feature_names_in = [''rating''], fitted = ([''rating''], [])\<rparr>],
      unwritable = {}\<rparr>"

section \<open>Basic facts about the operations\<close>



lemma fill_missing_all:
  "length (filter (\<lambda>x. x = None) cs) \<le> length ps \<Longrightarrow> None \<notin> set (fill_missing cs ps)"
  by (induction cs ps rule: fill_missing.induct) auto

lemma np_maximum0_nonneg:
  "np_maximum0 ps = Inr qs \<Longrightarrow> q \<in> set qs \<Longrightarrow> \<exists>x. q = Num x \<and> 0 \<le> x"
  by (induction ps arbitrary: qs rule: np_maximum0.induct) (auto split: sum.splits)

lemma get_col_iff: "get_col df n = Some c \<longleftrightarrow> columns_named df n = [c]"
  by (auto simp: get_col_def split: list.splits)

lemma get_col_cname: "get_col df n = Some c \<Longrightarrow> cname c = n \<and> c \<in> set (columns df)"
proof -
  assume "get_col df n = Some c"
  then have "c \<in> set (filter (\<lambda>c. cname c = n) (columns df))"
    by (simp add: get_col_iff columns_named_def)
  then show ?thesis by simp
qed

lemma columns_named_single: "columns_named df n = [c] \<Longrightarrow> cname c = n \<and> c \<in> set (columns df)"
  using get_col_cname [of df n c] by (simp add: get_col_iff)

lemma columns_named_member: "c \<in> set (columns df) \<Longrightarrow> columns_named df (cname c) \<noteq> []"
  by (auto simp: columns_named_def filter_empty_conv)

lemma find_single:
  "filter (\<lambda>c. cname c = n) cols = [c] \<Longrightarrow> find (\<lambda>c. cname c = n) cols = Some c"
  by (induction cols) (auto split: if_splits)

lemma mask_sum_isnull: "mask_sum (map (\<lambda>x. x = None) (cells tc)) = null_count tc"
  by (simp add: mask_sum_def null_count_def filter_map comp_def)

text \<open>What one call of \<open>impute_missing_values\<close> does to the world.\<close>

lemma impute_effect:
  assumes "impute_missing_values L r t md w = (res, w')"
  shows "w' = w \<or>
         (\<exists>df tc ps. res = Inr r \<and> deref w r = Some df \<and> get_col df t = Some tc \<and>
            length ps = null_count tc \<and>
            (is_numeric_dtype (ctype tc) \<longrightarrow> (\<forall>p \<in> set ps. \<exists>x. p = Num x \<and> 0 \<le> x)) \<and>
            w' = w\<lparr>heap := (heap w)[r := set_cells df t (fill_missing (cells tc) ps)]\<rparr>)"
  using assms
  unfolding impute_missing_values_def Let_def loc_assign_def
  by (auto simp: get_col_iff split: option.splits sum.splits if_splits list.splits
        dest!: columns_named_single dest: np_maximum0_nonneg)

lemma impute_ref: "impute_missing_values L r t md w = (Inr r', w') \<Longrightarrow> r' = r"
  unfolding impute_missing_values_def Let_def
  by (auto split: option.splits sum.splits if_splits list.splits)

section \<open>Filling, training and the loop\<close>

lemma cell_fills_refl: "list_all2 cell_fills cs cs"
  by (simp add: list_all2_same cell_fills_def)

lemma cell_fills_trans:
  "list_all2 cell_fills xs ys \<Longrightarrow> list_all2 cell_fills ys zs \<Longrightarrow> list_all2 cell_fills xs zs"
proof (induction xs ys arbitrary: zs rule: list_all2_induct)
  case Nil
  then show ?case by simp
next
  case (Cons x xs y ys)
  then show ?case by (cases zs) (auto simp: cell_fills_def)
qed

lemma column_fills_refl: "column_fills T c c"
  by (simp add: column_fills_def cell_fills_refl)

lemma column_fills_trans:
  "column_fills A c c' \<Longrightarrow> column_fills B c' c'' \<Longrightarrow> column_fills (A \<union> B) c c''"
  unfolding column_fills_def by (auto intro: cell_fills_trans)

lemma column_fills_mono: "column_fills A c c' \<Longrightarrow> A \<subseteq> B \<Longrightarrow> column_fills B c c'"
  unfolding column_fills_def by auto

lemma frame_fills_refl: "frame_fills T d d"
  by (simp add: frame_fills_def list_all2_same column_fills_refl)

lemma frame_fills_trans:
  assumes "frame_fills A d d'" and "frame_fills B d' d''"
  shows "frame_fills (A \<union> B) d d''"
proof -
  have "list_all2 (column_fills A OO column_fills B) (columns d) (columns d'')"
    using assms unfolding frame_fills_def
    by (auto simp: list.rel_compp relcompp.simps)
  then have "list_all2 (column_fills (A \<union> B)) (columns d) (columns d'')"
    by (rule list_all2_mono) (auto intro: column_fills_trans)
  with assms show ?thesis by (simp add: frame_fills_def)
qed

lemma frame_fills_mono: "frame_fills A d d' \<Longrightarrow> A \<subseteq> B \<Longrightarrow> frame_fills B d d'"
  unfolding frame_fills_def by (auto elim!: list_all2_mono intro: column_fills_mono)

lemma fill_missing_fills: "list_all2 cell_fills cs (fill_missing cs ps)"
  by (induction cs ps rule: fill_missing.induct) (auto simp: cell_fills_def)

lemma set_first_fills:
  "find (\<lambda>c. cname c = t) cols = Some tc \<Longrightarrow>
     list_all2 (column_fills {t}) cols (set_first t (fill_missing (cells tc) ps) cols)"
proof (induction cols)
  case Nil
  then show ?case by simp
next
  case (Cons c cols)
  show ?case
  proof (cases "cname c = t")
    case True
    with Cons.prems have "tc = c" by simp
    have "list_all2 (column_fills {t}) cols cols"
      by (simp add: list_all2_same column_fills_refl)
    moreover have "column_fills {t} c (c\<lparr>cells := fill_missing (cells c) ps\<rparr>)"
      using True by (simp add: column_fills_def fill_missing_fills)
    ultimately show ?thesis
      using True \<open>tc = c\<close> by simp
  next
    case False
    with Cons show ?thesis by (simp add: column_fills_refl)
  qed
qed

lemma set_cells_fills:
  "get_col df t = Some tc \<Longrightarrow> frame_fills {t} df (set_cells df t (fill_missing (cells tc) ps))"
  by (simp add: frame_fills_def set_cells_def get_col_iff columns_named_def find_single
      set_first_fills)

text \<open>The columns of a name correspond; a column outside the set is found unchanged.\<close>

lemma filter_fills:
  "list_all2 (column_fills T) cols cols' \<Longrightarrow>
     list_all2 (column_fills T) (filter (\<lambda>c. cname c = t) cols) (filter (\<lambda>c. cname c = t) cols')"
  by (induction cols cols' rule: list_all2_induct) (auto simp: column_fills_def)

lemma columns_named_fills:
  "frame_fills T d d' \<Longrightarrow> list_all2 (column_fills T) (columns_named d t) (columns_named d' t)"
  by (simp add: frame_fills_def columns_named_def filter_fills)

lemma get_col_fills:
  assumes "frame_fills T d d'"
  shows "get_col d t = None \<longleftrightarrow> get_col d' t = None"
    and "get_col d t = Some c \<Longrightarrow> \<exists>c'. get_col d' t = Some c' \<and> column_fills T c c'"
proof -
  note l = columns_named_fills [OF assms, of t]
  from l have len: "length (columns_named d t) = length (columns_named d' t)"
    by (rule list_all2_lengthD)
  show "get_col d t = None \<longleftrightarrow> get_col d' t = None"
  proof (cases "columns_named d t")
    case Nil
    with len show ?thesis by (simp add: get_col_def)
  next
    case (Cons a as)
    with len obtain b bs where b: "columns_named d' t = b # bs" "length as = length bs"
      by (cases "columns_named d' t") auto
    with Cons show ?thesis
      by (cases as; cases bs) (simp_all add: get_col_def)
  qed
  show "\<exists>c'. get_col d' t = Some c' \<and> column_fills T c c'" if "get_col d t = Some c"
  proof -
    from that have c: "columns_named d t = [c]" by (simp add: get_col_iff)
    with l obtain c' where "columns_named d' t = [c']" "column_fills T c c'"
      by (auto simp: list_all2_Cons1)
    then show ?thesis by (auto simp: get_col_iff)
  qed
qed

lemma get_col_fills_other:
  assumes "frame_fills T d d'" and "t \<notin> T"
  shows "get_col d' t = get_col d t"
proof -
  from columns_named_fills [OF assms(1), of t]
  have "list_all2 (\<lambda>c c'. c' = c) (columns_named d t) (columns_named d' t)"
  proof (rule list.rel_mono_strong)
    fix c c' assume "column_fills T c c'"
    moreover assume "c \<in> set (columns_named d t)"
    then have "cname c = t" by (simp add: columns_named_def)
    ultimately show "c' = c" using assms(2) by (simp add: column_fills_def)
  qed
  then have "list_all2 (=) (columns_named d' t) (columns_named d t)"
    by (simp add: list_all2_conv_all_nth)
  then have "columns_named d' t = columns_named d t"
    by (simp add: list_all2_eq)
  then show ?thesis by (simp add: get_col_def)
qed

lemma filter_map_column:
  "(\<And>c. cname (f c) = cname c) \<Longrightarrow>
     filter (\<lambda>c. cname c = t) (map f cols) = map f (filter (\<lambda>c. cname c = t) cols)"
  by (induction cols) auto

lemma columns_named_dropna_all:
  "columns_named (dropna_all d) t =
     map (\<lambda>c. c\<lparr>cells := map (cell_at c) (filter (row_has_value d) [0..<nrows d])\<rparr>)
       (columns_named d t)"
  by (simp add: columns_named_def dropna_all_def Let_def filter_map_column)

lemma get_col_dropna_all:
  "get_col (dropna_all d) t =
     map_option (\<lambda>c. c\<lparr>cells := map (cell_at c) (filter (row_has_value d) [0..<nrows d])\<rparr>)
       (get_col d t)"
  by (simp add: get_col_def columns_named_dropna_all split: list.splits)

lemma labeled_rows_alt:
  "labeled_rows d t =
     (case get_col d t of
        None \<Rightarrow> 0
      | Some tc \<Rightarrow> length (filter (\<lambda>i. cell_at tc i \<noteq> None) [0..<nrows d]))"
proof (cases "get_col d t")
  case None
  then show ?thesis by (simp add: labeled_rows_def get_col_dropna_all)
next
  case (Some tc)
  then have mem: "tc \<in> set (columns d)" by (simp add: get_col_cname)
  have imp: "cell_at tc i \<noteq> None \<Longrightarrow> row_has_value d i" for i
    using mem by (auto simp: row_has_value_def list_ex_iff)
  have "filter (\<lambda>i. cell_at tc i \<noteq> None) (filter (row_has_value d) [0..<nrows d])
        = filter (\<lambda>i. cell_at tc i \<noteq> None) [0..<nrows d]"
    using imp by (auto intro: filter_cong)
  then show ?thesis
    using Some
    by (simp add: labeled_rows_def get_col_dropna_all mask_sum_def filter_map comp_def)
qed

lemma labeled_rows_cong:
  "get_col d' t = get_col d t \<Longrightarrow> nrows d' = nrows d \<Longrightarrow> labeled_rows d' t = labeled_rows d t"
  by (simp add: labeled_rows_alt split: option.splits)

lemma cell_at_fills:
  assumes "list_all2 cell_fills (cells c) (cells c')" and "cell_at c i \<noteq> None"
  shows "cell_at c' i \<noteq> None"
proof -
  from assms(2) have i: "i < length (cells c)" "cells c ! i \<noteq> None"
    by (auto simp: cell_at_def split: if_splits)
  from list_all2_nthD [OF assms(1) i(1)] i(2) have "cells c' ! i = cells c ! i"
    by (simp add: cell_fills_def)
  moreover from assms(1) have "length (cells c') = length (cells c)"
    by (simp add: list_all2_lengthD)
  ultimately show ?thesis using i by (simp add: cell_at_def)
qed

lemma filter_length_mono:
  "(\<And>x. x \<in> set xs \<Longrightarrow> P x \<Longrightarrow> Q x) \<Longrightarrow> length (filter P xs) \<le> length (filter Q xs)"
  by (induction xs) auto

lemma labeled_rows_mono:
  assumes "frame_fills T d d'"
  shows "labeled_rows d t \<le> labeled_rows d' t"
proof (cases "get_col d t")
  case None
  then show ?thesis by (simp add: labeled_rows_alt)
next
  case (Some c)
  from get_col_fills(2) [OF assms Some] obtain c' where
    c': "get_col d' t = Some c'" "column_fills T c c'"
    by blast
  from c'(2) have "list_all2 cell_fills (cells c) (cells c')"
    by (simp add: column_fills_def)
  then have "length (filter (\<lambda>i. cell_at c i \<noteq> None) [0..<nrows d])
      \<le> length (filter (\<lambda>i. cell_at c' i \<noteq> None) [0..<nrows d])"
    by (intro filter_length_mono) (rule cell_at_fills)
  moreover from assms have "nrows d' = nrows d" by (simp add: frame_fills_def)
  ultimately show ?thesis using Some c'(1) by (simp add: labeled_rows_alt)
qed

lemma loc_columns_total:
  "(\<And>n. n \<in> set ns \<Longrightarrow> columns_named df n \<noteq> []) \<Longrightarrow> \<exists>cs. loc_columns df msk ns = Inr cs"
  by (induction ns) (auto split: list.splits sum.splits)

lemma features_are_columns: "n \<in> set (features_of df t) \<Longrightarrow> columns_named df n \<noteq> []"
  unfolding features_of_def by (auto dest!: columns_named_member)

lemma loc_features_total:
  "\<exists>cs. loc df msk (features_of df t) = Inr \<lparr>nrows = mask_sum msk, columns = cs\<rparr>"
proof -
  obtain cs where "loc_columns df msk (features_of df t) = Inr cs"
    using loc_columns_total [of "features_of df t" df msk] features_are_columns by blast
  then show ?thesis by (simp add: loc_def)
qed

lemma loc_nrows: "loc df msk ns = Inr X \<Longrightarrow> nrows X = mask_sum msk"
  by (auto simp: loc_def split: sum.splits)

text \<open>The effects of one call of the training step.\<close>

lemma train_dirs:
  "dirs (snd (train_imputation_model L r t md w)) = insert md (dirs w)"
  unfolding train_imputation_model_def Let_def alloc_def deref_def
  by (simp split: option.splits sum.splits prod.splits list.splits)

lemma train_heap:
  "heap (snd (train_imputation_model L r t md w)) = heap w \<or>
   (\<exists>d. deref w r = Some d \<and>
      heap (snd (train_imputation_model L r t md w)) = heap w @ [dropna_all d])"
  unfolding train_imputation_model_def Let_def alloc_def deref_def
  by (simp split: option.splits sum.splits prod.splits list.splits)

lemma train_files:
  "files (snd (train_imputation_model L r t md w)) = files w \<or>
   (\<exists>p fs. fst (train_imputation_model L r t md w) = Inr (Some (p, fs)) \<and>
      files (snd (train_imputation_model L r t md w)) = (files w)(model_path md t \<mapsto> p))"
  unfolding train_imputation_model_def Let_def alloc_def deref_def
  by (simp split: option.splits sum.splits prod.splits list.splits)

lemma train_none_files:
  "fst (train_imputation_model L r t md w) = Inr None \<Longrightarrow>
     files (snd (train_imputation_model L r t md w)) = files w"
  using train_files [of L r t md w] by auto

lemma train_files_kept:
  "files w p \<noteq> None \<Longrightarrow> files (snd (train_imputation_model L r t md w)) p \<noteq> None"
  using train_files [of L r t md w] by auto

text \<open>A returned model means ten labelled rows and a stored artifact; no model means fewer.\<close>

lemma train_some:
  assumes "train_imputation_model L r t md w = (Inr (Some m), w')" and "deref w r = Some d"
  shows "10 \<le> labeled_rows d t" and "files w' (model_path md t) \<noteq> None"
  using assms
  unfolding train_imputation_model_def Let_def alloc_def deref_def labeled_rows_def get_col_def
  by (auto split: option.splits sum.splits prod.splits if_splits list.splits dest: loc_nrows)

lemma train_none:
  assumes "train_imputation_model L r t md w = (Inr None, w')" and "deref w r = Some d"
  shows "labeled_rows d t < 10"
  using assms
  unfolding train_imputation_model_def Let_def alloc_def deref_def labeled_rows_def get_col_def
  by (auto split: option.splits sum.splits prod.splits if_splits list.splits dest: loc_nrows)

lemma find_distinct_name:
  "distinct (map cname cols) \<Longrightarrow> c \<in> set cols \<Longrightarrow> filter (\<lambda>x. cname x = cname c) cols = [c]"
proof (induction cols)
  case Nil
  then show ?case by simp
next
  case (Cons a cols)
  show ?case
  proof (cases "a = c")
    case True
    with Cons.prems have "filter (\<lambda>x. cname x = cname c) cols = []"
      by (auto simp: filter_empty_conv image_iff)
    with True show ?thesis by simp
  next
    case False
    with Cons.prems have "c \<in> set cols" by simp
    with Cons.prems have "cname a \<noteq> cname c" by (auto simp: image_iff)
    with Cons \<open>c \<in> set cols\<close> show ?thesis by simp
  qed
qed

lemma get_col_distinct:
  "distinct (map cname (columns d)) \<Longrightarrow> c \<in> set (columns d) \<Longrightarrow> get_col d (cname c) = Some c"
  by (simp add: get_col_iff columns_named_def find_distinct_name)

lemma no_shared_feature_name:
  assumes "distinct (map cname (columns d))"
  shows "\<not> shared_feature_name (dropna_all d) t"
proof -
  have "get_col (dropna_all d) (cname c) \<noteq> None" if "c \<in> set (columns d)" for c
    using get_col_distinct [OF assms that] by (simp add: get_col_dropna_all)
  then show ?thesis
    by (auto simp: shared_feature_name_def list_ex_iff dropna_all_def Let_def)
qed

lemma train_few_rows:
  assumes "deref w r = Some d" and "distinct (map cname (columns d))"
    and "get_col d t = Some tc" and "md \<noteq> []" and "md \<notin> unwritable w"
    and "labeled_rows d t < 10"
  shows "fst (train_imputation_model L r t md w) = Inr None"
proof -
  obtain tc' where tc': "columns_named (dropna_all d) t = [tc']"
    using assms(3) by (simp add: get_col_iff columns_named_dropna_all)
  obtain cs where X: "loc (dropna_all d) (map (\<lambda>x. x \<noteq> None) (cells tc')) (features_of (dropna_all d) t)
      = Inr \<lparr>nrows = mask_sum (map (\<lambda>x. x \<noteq> None) (cells tc')), columns = cs\<rparr>"
    using loc_features_total by blast
  have few: "mask_sum (map (\<lambda>x. x \<noteq> None) (cells tc')) < 10"
    using assms(6) tc' by (simp add: labeled_rows_def get_col_def)
  have d: "deref (w\<lparr>dirs := insert md (dirs w)\<rparr>) r = Some d"
    using assms(1) by (simp add: deref_def split: if_splits)
  from few d tc' X assms(4,5) no_shared_feature_name [OF assms(2), of t] show ?thesis
    unfolding train_imputation_model_def Let_def alloc_def
    by (simp split: prod.splits)
qed

lemma deref_train:
  "deref w a = Some d \<Longrightarrow> deref (snd (train_imputation_model L r t md w)) a = Some d"
  using train_heap [of L r t md w]
  by (auto simp: deref_def nth_append split: if_splits)

lemma train_heap_frame:
  "a < length (heap w) \<Longrightarrow>
     a < length (heap (snd (train_imputation_model L r t md w))) \<and>
     heap (snd (train_imputation_model L r t md w)) ! a = heap w ! a"
  using train_heap [of L r t md w] by (auto simp: nth_append)

lemma impute_heap_frame:
  assumes "impute_missing_values L r t md w = (res, w')"
  shows "length (heap w') = length (heap w) \<and> (a \<noteq> r \<longrightarrow> heap w' ! a = heap w ! a)
         \<and> files w' = files w \<and> dirs w' = dirs w \<and> unwritable w' = unwritable w"
  using impute_effect [OF assms] by auto

lemma impute_fills:
  assumes "impute_missing_values L r t md w = (res, w')" and "deref w r = Some d"
  shows "\<exists>d'. deref w' r = Some d' \<and> frame_fills {t} d d'"
  using impute_effect [OF assms(1)] assms(2)
  by (auto simp: deref_def frame_fills_refl set_cells_fills split: if_splits)

lemma set_first_single:
  "filter (\<lambda>c. cname c = t) cols = [tc] \<Longrightarrow>
     filter (\<lambda>c. cname c = t) (set_first t xs cols) = [tc\<lparr>cells := xs\<rparr>]"
  by (induction cols) (auto split: if_splits)

lemma get_col_set_cells:
  "get_col df t = Some tc \<Longrightarrow> get_col (set_cells df t xs) t = Some (tc\<lparr>cells := xs\<rparr>)"
  by (simp add: get_col_iff columns_named_def set_cells_def set_first_single)

lemma no_None_filter: "length (filter (\<lambda>x. x = None) xs) = 0 \<longleftrightarrow> None \<notin> set xs"
  by (induction xs) auto

lemma null_count_0: "null_count c = 0 \<longleftrightarrow> None \<notin> set (cells c)"
  unfolding null_count_def by (rule no_None_filter)

text \<open>With an artifact in place, a call of the imputation step that returns leaves the target complete.\<close>

lemma impute_complete:
  assumes "impute_missing_values L r t md w = (Inr r', w')"
    and "files w (model_path md t) \<noteq> None" and "deref w r = Some d"
  shows "\<exists>d' tc'. deref w' r = Some d' \<and> get_col d' t = Some tc' \<and> null_count tc' = 0"
proof -
  from assms(2) obtain pl where pl: "files w (model_path md t) = Some pl" by auto
  from assms(1) pl assms(3) obtain tc where tc: "columns_named d t = [tc]"
    unfolding impute_missing_values_def Let_def
    by (auto split: list.splits)
  then have g: "get_col d t = Some tc" by (simp add: get_col_iff)
  show ?thesis
  proof (cases "null_count tc = 0")
    case True
    with assms(1) pl assms(3) tc have "w' = w"
      unfolding impute_missing_values_def Let_def by (simp add: mask_sum_isnull)
    with assms(3) g True show ?thesis by auto
  next
    case False
    with assms(1) pl assms(3) tc obtain ps where
      ps: "length ps = null_count tc"
      and w': "w' = w\<lparr>heap := (heap w)[r := set_cells d (cname tc) (fill_missing (cells tc) ps)]\<rparr>"
      unfolding impute_missing_values_def Let_def loc_assign_def
      by (auto simp: mask_sum_isnull split: sum.splits if_splits)
    have name: "cname tc = t" using g by (simp add: get_col_cname)
    have valid: "r < length (heap w)"
      using assms(3) by (auto simp: deref_def split: if_splits)
    let ?cs = "fill_missing (cells tc) ps"
    have 1: "deref w' r = Some (set_cells d t ?cs)"
      using w' valid name by (simp add: deref_def)
    have 2: "get_col (set_cells d t ?cs) t = Some (tc\<lparr>cells := ?cs\<rparr>)"
      using g by (rule get_col_set_cells)
    have "None \<notin> set ?cs"
      using ps by (intro fill_missing_all) (simp add: null_count_def)
    then have 3: "null_count (tc\<lparr>cells := ?cs\<rparr>) = 0"
      by (simp add: null_count_0)
    from 1 2 3 show ?thesis by blast
  qed
qed

lemma cell_fills_complete: "list_all2 cell_fills xs ys \<Longrightarrow> None \<notin> set xs \<Longrightarrow> ys = xs"
  by (induction xs ys rule: list_all2_induct) (auto simp: cell_fills_def)

lemma column_fills_complete: "column_fills T c c' \<Longrightarrow> null_count c = 0 \<Longrightarrow> c' = c"
  unfolding column_fills_def null_count_0
  by (auto dest: cell_fills_complete)

lemma impute_loop_ref: "impute_loop L md cols r w = (Inr r', w') \<Longrightarrow> r' = r"
proof (induction cols arbitrary: w)
  case Nil
  then show ?case by simp
next
  case (Cons col cols)
  obtain res1 w1 where tr: "train_imputation_model L r col md w = (res1, w1)"
    by (cases "train_imputation_model L r col md w")
  show ?case
  proof (cases res1)
    case (Inl e)
    with Cons.prems tr show ?thesis by simp
  next
    case (Inr m)
    show ?thesis
    proof (cases m)
      case None
      with Cons tr Inr show ?thesis by simp
    next
      case (Some model)
      obtain res2 w2 where im: "impute_missing_values L r col md w1 = (res2, w2)"
        by (cases "impute_missing_values L r col md w1")
      show ?thesis
      proof (cases res2)
        case (Inl e)
        with Cons.prems tr Inr Some im show ?thesis by simp
      next
        case (Inr r2)
        with im have "r2 = r" by (simp add: impute_ref)
        with Cons tr \<open>res1 = Inr m\<close> Some im Inr show ?thesis by simp
      qed
    qed
  qed
qed

lemma impute_loop_heap:
  "impute_loop L md cols r w = (res, w') \<Longrightarrow> a < length (heap w) \<Longrightarrow> a \<noteq> r \<Longrightarrow>
     a < length (heap w') \<and> heap w' ! a = heap w ! a"
proof (induction cols arbitrary: w)
  case Nil
  then show ?case by simp
next
  case (Cons col cols)
  obtain res1 w1 where tr: "train_imputation_model L r col md w = (res1, w1)"
    by (cases "train_imputation_model L r col md w")
  have w1: "a < length (heap w1) \<and> heap w1 ! a = heap w ! a"
    using train_heap_frame [OF Cons.prems(2), of L r col md] tr by simp
  show ?case
  proof (cases res1)
    case (Inl e)
    with Cons.prems tr w1 show ?thesis by simp
  next
    case (Inr m)
    show ?thesis
    proof (cases m)
      case None
      with Cons.prems tr Inr have "impute_loop L md cols r w1 = (res, w')" by simp
      from Cons.IH [OF this] w1 Cons.prems(3) show ?thesis by simp
    next
      case (Some model)
      obtain res2 w2 where im: "impute_missing_values L r col md w1 = (res2, w2)"
        by (cases "impute_missing_values L r col md w1")
      have w2: "a < length (heap w2) \<and> heap w2 ! a = heap w ! a"
        using impute_heap_frame [OF im, of a] w1 Cons.prems(3) by simp
      show ?thesis
      proof (cases res2)
        case (Inl e)
        with Cons.prems tr Inr Some im w2 show ?thesis by simp
      next
        case (Inr r2)
        with im have "r2 = r" by (simp add: impute_ref)
        with Cons.prems tr \<open>res1 = Inr m\<close> Some im Inr
        have "impute_loop L md cols r w2 = (res, w')" by simp
        from Cons.IH [OF this] w2 Cons.prems(3) show ?thesis by simp
      qed
    qed
  qed
qed

lemma impute_loop_files_kept:
  "impute_loop L md cols r w = (res, w') \<Longrightarrow> files w p \<noteq> None \<Longrightarrow> files w' p \<noteq> None"
proof (induction cols arbitrary: w)
  case Nil
  then show ?case by simp
next
  case (Cons col cols)
  obtain res1 w1 where tr: "train_imputation_model L r col md w = (res1, w1)"
    by (cases "train_imputation_model L r col md w")
  have w1: "files w1 p \<noteq> None"
    using train_files_kept [OF Cons.prems(2), of L r col md] tr by simp
  show ?case
  proof (cases res1)
    case (Inl e)
    with Cons.prems tr w1 show ?thesis by simp
  next
    case (Inr m)
    show ?thesis
    proof (cases m)
      case None
      with Cons.prems tr Inr have "impute_loop L md cols r w1 = (res, w')" by simp
      from Cons.IH [OF this w1] show ?thesis .
    next
      case (Some model)
      obtain res2 w2 where im: "impute_missing_values L r col md w1 = (res2, w2)"
        by (cases "impute_missing_values L r col md w1")
      have w2: "files w2 p \<noteq> None"
        using impute_heap_frame [OF im, of 0] w1 by simp
      show ?thesis
      proof (cases res2)
        case (Inl e)
        with Cons.prems tr Inr Some im w2 show ?thesis by simp
      next
        case (Inr r2)
        with im have "r2 = r" by (simp add: impute_ref)
        with Cons.prems tr \<open>res1 = Inr m\<close> Some im Inr
        have "impute_loop L md cols r w2 = (res, w')" by simp
        from Cons.IH [OF this w2] show ?thesis .
      qed
    qed
  qed
qed

lemma impute_loop_fills:
  "impute_loop L md cols r w = (res, w') \<Longrightarrow> deref w r = Some d \<Longrightarrow>
     \<exists>d'. deref w' r = Some d' \<and> frame_fills {t \<in> set cols. 10 \<le> labeled_rows d t} d d'"
proof (induction cols arbitrary: w d)
  case Nil
  then show ?case by (simp add: frame_fills_refl)
next
  case (Cons col cols)
  let ?T = "{t \<in> set (col # cols). 10 \<le> labeled_rows d t}"
  obtain res1 w1 where tr: "train_imputation_model L r col md w = (res1, w1)"
    by (cases "train_imputation_model L r col md w")
  have d1: "deref w1 r = Some d"
    using deref_train [OF Cons.prems(2), of L r col md] tr by simp
  show ?case
  proof (cases res1)
    case (Inl e)
    with Cons.prems tr d1 show ?thesis by (simp add: frame_fills_refl)
  next
    case (Inr m)
    show ?thesis
    proof (cases m)
      case None
      with Cons.prems tr Inr have "impute_loop L md cols r w1 = (res, w')" by simp
      from Cons.IH [OF this d1] obtain d' where
        "deref w' r = Some d'" "frame_fills {t \<in> set cols. 10 \<le> labeled_rows d t} d d'"
        by blast
      then show ?thesis
        by (auto intro: frame_fills_mono)
    next
      case (Some model)
      have enough: "10 \<le> labeled_rows d col"
        using train_some(1) [of L r col md w model w1 d] tr Inr Some Cons.prems(2) by simp
      obtain res2 w2 where im: "impute_missing_values L r col md w1 = (res2, w2)"
        by (cases "impute_missing_values L r col md w1")
      from impute_fills [OF im d1] obtain d2 where
        d2: "deref w2 r = Some d2" and f2: "frame_fills {col} d d2"
        by blast
      show ?thesis
      proof (cases res2)
        case (Inl e)
        with Cons.prems tr Inr Some im have "w' = w2" by simp
        with d2 f2 enough show ?thesis
          by (auto intro: frame_fills_mono)
      next
        case (Inr r2)
        with im have "r2 = r" by (simp add: impute_ref)
        with Cons.prems tr \<open>res1 = Inr m\<close> Some im Inr
        have "impute_loop L md cols r w2 = (res, w')" by simp
        from Cons.IH [OF this d2] obtain d' where
          d': "deref w' r = Some d'"
          and f': "frame_fills {t \<in> set cols. 10 \<le> labeled_rows d2 t} d2 d'"
          by blast
        have same: "labeled_rows d2 t = labeled_rows d t" if "t \<noteq> col" for t
          using f2 that by (auto intro!: labeled_rows_cong get_col_fills_other simp: frame_fills_def)
        have sub: "{col} \<union> {t \<in> set cols. 10 \<le> labeled_rows d2 t} \<subseteq> ?T"
        proof
          fix x assume x: "x \<in> {col} \<union> {t \<in> set cols. 10 \<le> labeled_rows d2 t}"
          show "x \<in> ?T"
          proof (cases "x = col")
            case True
            with enough show ?thesis by simp
          next
            case False
            with x same [OF False] show ?thesis by simp
          qed
        qed
        from frame_fills_trans [OF f2 f'] sub have "frame_fills ?T d d'"
          by (rule frame_fills_mono)
        with d' show ?thesis by blast
      qed
    qed
  qed
qed

text \<open>A complete column stays as it is through the rest of the loop.\<close>

lemma impute_loop_keeps_complete:
  assumes "impute_loop L md cols r w = (res, w')" and "deref w r = Some d"
    and "get_col d t = Some tc" and "null_count tc = 0"
  shows "\<exists>d'. deref w' r = Some d' \<and> get_col d' t = Some tc"
proof -
  from impute_loop_fills [OF assms(1,2)] obtain d' where
    d': "deref w' r = Some d'"
    and f: "frame_fills {t \<in> set cols. 10 \<le> labeled_rows d t} d d'"
    by blast
  from get_col_fills(2) [OF f assms(3)] obtain c' where
    "get_col d' t = Some c'" "column_fills {t \<in> set cols. 10 \<le> labeled_rows d t} tc c'"
    by blast
  with column_fills_complete [OF _ assms(4)] d' show ?thesis by auto
qed

text \<open>When the loop returns, every column it was given that has ten labelled rows is complete.\<close>

lemma impute_loop_complete:
  "impute_loop L md cols r w = (Inr r', w') \<Longrightarrow> deref w r = Some d \<Longrightarrow>
   t \<in> set cols \<Longrightarrow> 10 \<le> labeled_rows d t \<Longrightarrow>
     \<exists>d' tc'. deref w' r = Some d' \<and> get_col d' t = Some tc' \<and> null_count tc' = 0 \<and>
        files w' (model_path md t) \<noteq> None"
proof (induction cols arbitrary: w d)
  case Nil
  then show ?case by simp
next
  case (Cons col cols)
  obtain res1 w1 where tr: "train_imputation_model L r col md w = (res1, w1)"
    by (cases "train_imputation_model L r col md w")
  have d1: "deref w1 r = Some d"
    using deref_train [OF Cons.prems(2), of L r col md] tr by simp
  show ?case
  proof (cases res1)
    case (Inl e)
    with Cons.prems tr show ?thesis by simp
  next
    case (Inr m)
    show ?thesis
    proof (cases m)
      case None
      with Cons.prems tr Inr have loop: "impute_loop L md cols r w1 = (Inr r', w')" by simp
      from tr Inr None have "labeled_rows d col < 10"
        using train_none [of L r col md w w1 d] Cons.prems(2) by simp
      with Cons.prems(3,4) have "t \<in> set cols" by auto
      from Cons.IH [OF loop d1 this Cons.prems(4)] show ?thesis .
    next
      case (Some model)
      have art: "files w1 (model_path md col) \<noteq> None"
        using train_some(2) [of L r col md w model w1 d] tr Inr Some Cons.prems(2) by simp
      obtain res2 w2 where im: "impute_missing_values L r col md w1 = (res2, w2)"
        by (cases "impute_missing_values L r col md w1")
      show ?thesis
      proof (cases res2)
        case (Inl e)
        with Cons.prems tr Inr Some im show ?thesis by simp
      next
        case (Inr r2)
        with im have r2: "r2 = r" by (simp add: impute_ref)
        with Cons.prems tr \<open>res1 = Inr m\<close> Some im Inr
        have loop: "impute_loop L md cols r w2 = (Inr r', w')" by simp
        from impute_fills [OF im d1] obtain d2 where
          d2: "deref w2 r = Some d2" and f2: "frame_fills {col} d d2"
          by blast
        show ?thesis
        proof (cases "t = col")
          case True
          from im Inr r2 have "impute_missing_values L r col md w1 = (Inr r, w2)" by simp
          from impute_complete [OF this art d1] d2 obtain tc' where
            tc': "get_col d2 col = Some tc'" "null_count tc' = 0"
            by auto
          from impute_loop_keeps_complete [OF loop d2 tc'] obtain d' where
            "deref w' r = Some d'" "get_col d' col = Some tc'"
            by blast
          moreover have "files w2 (model_path md col) \<noteq> None"
            using impute_heap_frame [OF im, of 0] art by simp
          then have "files w' (model_path md col) \<noteq> None"
            by (rule impute_loop_files_kept [OF loop])
          ultimately show ?thesis using True tc'(2) by blast
        next
          case False
          with Cons.prems(3) have t: "t \<in> set cols" by simp
          from labeled_rows_mono [OF f2, of t] Cons.prems(4) have "10 \<le> labeled_rows d2 t"
            by simp
          from Cons.IH [OF loop d2 t this] show ?thesis .
        qed
      qed
    qed
  qed
qed

lemma process_in_order_unfold:
  "deref w r = Some d \<Longrightarrow>
     process_in_order L r md order w =
       impute_loop L md order (length (heap w)) (w\<lparr>heap := heap w @ [d]\<rparr>)"
  by (simp add: process_in_order_def alloc_def)

lemma fill_null_ML_process:
  "deref w r = Some d \<Longrightarrow> fill_null_ML L r md w = process_in_order L r md (eligible_cols d) w"
  by (simp add: fill_null_ML_def process_in_order_def)

lemma process_in_order_effect:
  assumes "deref w r = Some d" and "process_in_order L r md order w = (res, w')"
  shows "deref w' r = Some d"
    and "res = Inr r' \<Longrightarrow> r' = length (heap w)"
    and "\<exists>d'. deref w' (length (heap w)) = Some d' \<and>
           frame_fills {t \<in> set order. 10 \<le> labeled_rows d t} d d'"
    and "res = Inr r' \<Longrightarrow> t \<in> set order \<Longrightarrow> 10 \<le> labeled_rows d t \<Longrightarrow>
           \<exists>d' tc'. deref w' (length (heap w)) = Some d' \<and> get_col d' t = Some tc' \<and>
              null_count tc' = 0 \<and> files w' (model_path md t) \<noteq> None"
proof -
  let ?w1 = "w\<lparr>heap := heap w @ [d]\<rparr>"
  let ?r = "length (heap w)"
  have loop: "impute_loop L md order ?r ?w1 = (res, w')"
    using assms by (simp add: process_in_order_unfold)
  have r: "r < length (heap w)" and d: "heap w ! r = d"
    using assms(1) by (auto simp: deref_def split: if_splits)
  have "r < length (heap ?w1)" "r \<noteq> ?r" using r by simp_all
  from impute_loop_heap [OF loop this] r d show "deref w' r = Some d"
    by (simp add: deref_def nth_append)
  show "r' = ?r" if "res = Inr r'"
    using loop that by (auto dest: impute_loop_ref)
  have new: "deref ?w1 ?r = Some d" by (simp add: deref_def)
  from impute_loop_fills [OF loop new]
  show "\<exists>d'. deref w' ?r = Some d' \<and> frame_fills {t \<in> set order. 10 \<le> labeled_rows d t} d d'" .
  show "\<exists>d' tc'. deref w' ?r = Some d' \<and> get_col d' t = Some tc' \<and>
              null_count tc' = 0 \<and> files w' (model_path md t) \<noteq> None"
    if "res = Inr r'" "t \<in> set order" "10 \<le> labeled_rows d t"
  proof -
    from loop that(1) have "impute_loop L md order ?r ?w1 = (Inr r', w')" by simp
    from impute_loop_complete [OF this new that(2,3)] show ?thesis .
  qed
qed

lemma fill_null_ML_effect:
  assumes "deref w r = Some d" and "fill_null_ML L r md w = (res, w')"
  shows "deref w' r = Some d"
    and "res = Inr r' \<Longrightarrow> r' = length (heap w)"
    and "\<exists>d'. deref w' (length (heap w)) = Some d' \<and>
           frame_fills {t \<in> set (eligible_cols d). 10 \<le> labeled_rows d t} d d'"
    and "res = Inr r' \<Longrightarrow> t \<in> set (eligible_cols d) \<Longrightarrow> 10 \<le> labeled_rows d t \<Longrightarrow>
           \<exists>d' tc'. deref w' (length (heap w)) = Some d' \<and> get_col d' t = Some tc' \<and>
              null_count tc' = 0 \<and> files w' (model_path md t) \<noteq> None"
proof -
  have p: "process_in_order L r md (eligible_cols d) w = (res, w')"
    using assms by (simp add: fill_null_ML_process)
  show "deref w' r = Some d"
    by (rule process_in_order_effect(1) [OF assms(1) p])
  show "r' = length (heap w)" if "res = Inr r'"
    using that by (rule process_in_order_effect(2) [OF assms(1) p])
  show "\<exists>d'. deref w' (length (heap w)) = Some d' \<and>
           frame_fills {t \<in> set (eligible_cols d). 10 \<le> labeled_rows d t} d d'"
    by (rule process_in_order_effect(3) [OF assms(1) p])
  show "\<exists>d' tc'. deref w' (length (heap w)) = Some d' \<and> get_col d' t = Some tc' \<and>
              null_count tc' = 0 \<and> files w' (model_path md t) \<noteq> None"
    if "res = Inr r'" "t \<in> set (eligible_cols d)" "10 \<le> labeled_rows d t"
    using that by (rule process_in_order_effect(4) [OF assms(1) p])
qed

lemma cell_fills_count:
  "list_all2 cell_fills xs ys \<Longrightarrow>
     length (filter (\<lambda>x. x \<noteq> None) xs) \<le> length (filter (\<lambda>x. x \<noteq> None) ys)"
  by (induction xs ys rule: list_all2_induct) (auto simp: cell_fills_def)

lemma column_fills_sum:
  "list_all2 (column_fills T) cs cs' \<Longrightarrow>
     sum_list (map (\<lambda>c. length (filter (\<lambda>x. x \<noteq> None) (cells c))) cs)
       \<le> sum_list (map (\<lambda>c. length (filter (\<lambda>x. x \<noteq> None) (cells c))) cs')"
proof (induction cs cs' rule: list_all2_induct)
  case Nil
  then show ?case by simp
next
  case (Cons c cs c' cs')
  from Cons.hyps(1) have "list_all2 cell_fills (cells c) (cells c')"
    by (simp add: column_fills_def)
  from cell_fills_count [OF this] Cons.IH show ?case by simp
qed

lemma frame_fills_present_count:
  assumes "frame_fills T d d'"
  shows "present_count d \<le> present_count d'"
proof -
  from assms have "list_all2 (column_fills T) (columns d) (columns d')"
    by (simp add: frame_fills_def)
  from column_fills_sum [OF this] show ?thesis
    unfolding present_count_def .
qed

lemma frame_fills_complete:
  assumes "frame_fills T d d'"
  shows "length (columns d') = length (columns d)"
    and "i < length (columns d) \<Longrightarrow> null_count (columns d ! i) = 0 \<Longrightarrow> columns d' ! i = columns d ! i"
proof -
  from assms have l: "list_all2 (column_fills T) (columns d) (columns d')"
    by (simp add: frame_fills_def)
  then show "length (columns d') = length (columns d)"
    by (simp add: list_all2_lengthD)
  show "columns d' ! i = columns d ! i"
    if "i < length (columns d)" "null_count (columns d ! i) = 0"
    using list_all2_nthD [OF l that(1)] that(2) by (rule column_fills_complete)
qed

lemma get_col_self:
  assumes "c \<in> set (columns d)" and "get_col d (cname c) = Some s"
  shows "s = c"
proof -
  from assms(2) have "columns_named d (cname c) = [s]" by (simp add: get_col_iff)
  moreover from assms(1) have "c \<in> set (columns_named d (cname c))"
    by (simp add: columns_named_def)
  ultimately show ?thesis by simp
qed

lemma eligible_cols_targets:
  "eligible_cols d = map cname (filter (is_target d) (columns d))"
proof -
  have "0 < null_count c \<and> (case get_col d (cname c) of None \<Rightarrow> False
          | Some s \<Rightarrow> is_numeric_dtype (ctype s) \<or> is_object_dtype (ctype s))
        \<longleftrightarrow> is_target d c" if "c \<in> set (columns d)" for c
    using that get_col_self [OF that] by (auto simp: is_target_def split: option.splits)
  then have "filter (\<lambda>c. 0 < null_count c \<and> (case get_col d (cname c) of None \<Rightarrow> False
          | Some s \<Rightarrow> is_numeric_dtype (ctype s) \<or> is_object_dtype (ctype s)))
        (columns d) = filter (is_target d) (columns d)"
    by (intro filter_cong) auto
  then show ?thesis by (simp add: eligible_cols_def)
qed

lemma eligible_name_is_target:
  assumes "c \<in> set (columns d)"
  shows "cname c \<in> set (eligible_cols d) \<longleftrightarrow> is_target d c"
proof
  assume "cname c \<in> set (eligible_cols d)"
  then obtain c2 where c2: "c2 \<in> set (columns d)" "is_target d c2" "cname c2 = cname c"
    by (auto simp: eligible_cols_targets)
  from c2(2) have "get_col d (cname c2) = Some c2" by (simp add: is_target_def)
  with c2(3) have "get_col d (cname c) = Some c2" by simp
  from get_col_self [OF assms this] c2(2) show "is_target d c" by simp
next
  assume "is_target d c"
  with assms show "cname c \<in> set (eligible_cols d)"
    by (auto simp: eligible_cols_targets)
qed

text \<open>The column at a position of the result is the one its name finds, when the name finds one.\<close>

lemma result_column_at:
  assumes "frame_fills T d d'" and "i < length (columns d)"
    and "get_col d' (cname (columns d ! i)) = Some tc'"
  shows "columns d' ! i = tc'"
proof -
  from assms(1) have l: "list_all2 (column_fills T) (columns d) (columns d')"
    by (simp add: frame_fills_def)
  from list_all2_nthD [OF l assms(2)] have "cname (columns d' ! i) = cname (columns d ! i)"
    by (simp add: column_fills_def)
  moreover from l assms(2) have "columns d' ! i \<in> set (columns d')"
    by (simp add: list_all2_lengthD [symmetric])
  ultimately show ?thesis
    using get_col_self [of "columns d' ! i" d' tc'] assms(3) by simp
qed

lemma frame_fills_at:
  assumes "frame_fills T d d'" and "i < length (columns d)"
  shows "column_fills T (columns d ! i) (columns d' ! i)"
  using assms by (simp add: frame_fills_def list_all2_nthD)

lemma complete_pattern:
  "null_count c = 0 \<Longrightarrow> map (\<lambda>x. x = None) (cells c) = replicate (length (cells c)) False"
proof -
  have "None \<notin> set xs \<Longrightarrow> map (\<lambda>x. x = None) xs = replicate (length xs) False"
    for xs :: "cell list"
  proof (induction xs)
    case Nil
    show ?case by simp
  next
    case (Cons a xs)
    then obtain y where "a = Some y" by (cases a) auto
    with Cons show ?case by simp
  qed
  moreover assume "null_count c = 0"
  ultimately show ?thesis by (simp add: null_count_0)
qed

lemma missing_cells_equal:
  assumes "frame_fills T d d1" and "frame_fills T d d2"
    and "\<And>i. i < length (columns d) \<Longrightarrow> cname (columns d ! i) \<in> T \<Longrightarrow>
           null_count (columns d1 ! i) = 0 \<and> null_count (columns d2 ! i) = 0"
  shows "missing_cells d1 = missing_cells d2"
proof -
  from assms(1) have l1: "list_all2 (column_fills T) (columns d) (columns d1)"
    by (simp add: frame_fills_def)
  from assms(2) have l2: "list_all2 (column_fills T) (columns d) (columns d2)"
    by (simp add: frame_fills_def)
  have len1: "length (columns d1) = length (columns d)"
    using l1 by (simp add: list_all2_lengthD)
  have len2: "length (columns d2) = length (columns d)"
    using l2 by (simp add: list_all2_lengthD)
  have "map (\<lambda>c. (cname c, map (\<lambda>x. x = None) (cells c))) (columns d1)
      = map (\<lambda>c. (cname c, map (\<lambda>x. x = None) (cells c))) (columns d2)"
  proof (rule nth_equalityI)
    show "length (map (\<lambda>c. (cname c, map (\<lambda>x. x = None) (cells c))) (columns d1))
        = length (map (\<lambda>c. (cname c, map (\<lambda>x. x = None) (cells c))) (columns d2))"
      using len1 len2 by simp
  next
    fix i assume "i < length (map (\<lambda>c. (cname c, map (\<lambda>x. x = None) (cells c))) (columns d1))"
    then have i: "i < length (columns d)" using len1 by simp
    note a = frame_fills_at [OF assms(1) i]
    note b = frame_fills_at [OF assms(2) i]
    have names: "cname (columns d1 ! i) = cname (columns d2 ! i)"
      using a b by (simp add: column_fills_def)
    have cells_len: "length (cells (columns d1 ! i)) = length (cells (columns d2 ! i))"
    proof -
      from a have "list_all2 cell_fills (cells (columns d ! i)) (cells (columns d1 ! i))"
        by (simp add: column_fills_def)
      moreover from b have "list_all2 cell_fills (cells (columns d ! i)) (cells (columns d2 ! i))"
        by (simp add: column_fills_def)
      ultimately show ?thesis by (simp add: list_all2_lengthD [symmetric])
    qed
    have "map (\<lambda>x. x = None) (cells (columns d1 ! i)) = map (\<lambda>x. x = None) (cells (columns d2 ! i))"
    proof (cases "cname (columns d ! i) \<in> T")
      case True
      from assms(3) [OF i True] cells_len show ?thesis
        by (simp add: complete_pattern)
    next
      case False
      from a False have "columns d1 ! i = columns d ! i"
        unfolding column_fills_def by blast
      moreover from b False have "columns d2 ! i = columns d ! i"
        unfolding column_fills_def by blast
      ultimately show ?thesis by simp
    qed
    with names i len1 len2
    show "map (\<lambda>c. (cname c, map (\<lambda>x. x = None) (cells c))) (columns d1) ! i
        = map (\<lambda>c. (cname c, map (\<lambda>x. x = None) (cells c))) (columns d2) ! i"
      by simp
  qed
  then show ?thesis by (simp add: missing_cells_def)
qed

section \<open>Concrete runs\<close>

text \<open>The definitions a closed evaluation unfolds.\<close>

lemmas run_defs =
  fill_null_ML_def process_in_order_def train_imputation_model_def impute_missing_values_def
  eligible_cols_def features_of_def detect_column_types_def labeled_rows_def result_cells_def
  deref_def alloc_def null_count_def cell_at_def get_col_def columns_named_def
  shared_feature_name_def missing_cells_def row_has_value_def dropna_all_def
  mask_sum_def select_rows_def loc_def loc_assign_def set_cells_def model_path_def path_join_def
  table_learner_def table_fit_def table_predict_def row_at_def Let_def upt_rec

lemma studio_deref: "deref studio 0 = Some videos"
  by (simp add: deref_def studio_def)

lemma studio_run: "fst (fill_null_ML table_learner 0 ''impute_models'' studio) = Inr 1"
  by (simp add: run_defs studio_def videos_def)

lemma videos_rating: "labeled_rows videos ''rating'' = 6"
  by (simp add: run_defs videos_def)

lemma studio_train_likes:
  "files (snd (train_imputation_model table_learner 0 ''likes'' ''impute_models'' studio))
     (model_path ''impute_models'' ''likes'') \<noteq> None"
  by (simp add: run_defs studio_def videos_def)



lemma videos_views_complete: "0 < length (columns videos) \<and> null_count (columns videos ! 0) = 0"
  by (simp add: videos_def null_count_def)

lemma studio_trained_deref:
  "deref (snd (train_imputation_model table_learner 0 ''likes'' ''impute_models'' studio)) 0
     = Some videos"
  using studio_deref by (rule deref_train)



lemma videos_rating_col: "get_col videos ''rating'' = Some (columns videos ! 3)"
  by (simp add: get_col_def columns_named_def videos_def)

lemma videos_rating_few: "labeled_rows videos ''rating'' < 10"
  by (simp add: videos_rating)

lemma elsewhere: "''elsewhere.pkl'' \<noteq> model_path ''impute_models'' ''likes''"
  by (simp add: model_path_def path_join_def)

lemma videos_distinct: "distinct (map cname (columns videos))"
  by (simp add: videos_def)

lemma studio_creatable: "''impute_models'' \<noteq> [] \<and> ''impute_models'' \<notin> unwritable studio"
  by (simp add: studio_def)

lemma videos_eligible: "eligible_cols videos = [''likes'', ''rating'']"
  by (simp add: eligible_cols_def get_col_def columns_named_def videos_def null_count_def)

lemma videos_likes_labeled: "labeled_rows videos ''likes'' = 10"
  by (simp add: run_defs videos_def)

lemma videos_targets:
  "is_target videos (columns videos ! 1) \<and> cname (columns videos ! 1) = ''likes'' \<and>
   cname (columns videos ! 3) = ''rating'' \<and>
   \<not> is_target videos (columns videos ! 4) \<and> length (columns videos) = 5"
  by (simp add: is_target_def get_col_def columns_named_def videos_def null_count_def)

lemma studio_train_empty_dir:
  "fst (train_imputation_model table_learner 0 ''rating'' [] studio) = Inl FileNotFoundError"
  by (simp add: train_imputation_model_def)

lemma locked_studio_train:
  "fst (train_imputation_model table_learner 0 ''rating'' ''impute_models'' locked_studio)
     = Inl OSError"
  by (simp add: train_imputation_model_def locked_studio_def)

lemma trio_deref: "deref trio_world 0 = Some trio"
  by (simp add: deref_def trio_world_def)

lemma trio_eligible: "eligible_cols trio = [''a'', ''b'']"
  by (simp add: eligible_cols_def get_col_def columns_named_def trio_def null_count_def)

lemma trio_run: "fst (fill_null_ML table_learner 0 ''impute_models'' trio_world) = Inr 1"
  by (simp add: run_defs trio_world_def trio_def)

lemma trio_run_swapped:
  "fst (process_in_order table_learner 0 ''impute_models'' [''b'', ''a''] trio_world) = Inr 1"
  by (simp add: run_defs trio_world_def trio_def)

lemma trio_run_b:
  "result_cells (fill_null_ML table_learner 0 ''impute_models'' trio_world) ''b'' =
     Some [Some (Num 20), Some (Num 20), Some (Num 22), Some (Num 23), Some (Num 24),
           Some (Num 25), Some (Num 26), Some (Num 27), Some (Num 28), Some (Num 29),
           Some (Num 30)]"
  by (simp add: run_defs trio_world_def trio_def)

lemma trio_run_swapped_b:
  "result_cells (process_in_order table_learner 0 ''impute_models'' [''b'', ''a''] trio_world) ''b'' =
     Some [Some (Num 20), Some (Num 22), Some (Num 22), Some (Num 23), Some (Num 24),
           Some (Num 25), Some (Num 26), Some (Num 27), Some (Num 28), Some (Num 29),
           Some (Num 30)]"
  by (simp add: run_defs trio_world_def trio_def)

lemma trio_features_b:
  "map_option feature_names_in
     (files (snd (fill_null_ML table_learner 0 ''impute_models'' trio_world))
        (model_path ''impute_models'' ''b'')) = Some [''a'', ''c'']"
  by (simp add: run_defs trio_world_def trio_def)

lemma trio_features_swapped_b:
  "map_option feature_names_in
     (files (snd (process_in_order table_learner 0 ''impute_models'' [''b'', ''a''] trio_world))
        (model_path ''impute_models'' ''b'')) = Some [''c'']"
  by (simp add: run_defs trio_world_def trio_def)

lemma gappy_features: "features_of (dropna_all gappy) ''a'' = [''c'']"
  by (simp add: run_defs gappy_def)

lemma gappy_labeled: "labeled_rows gappy ''a'' = 10"
  by (simp add: run_defs gappy_def)

lemma gappy_artifact:
  "map_option feature_names_in
     (files (snd (train_imputation_model table_learner 1 ''a'' ''impute_models''
                    (snd (alloc gappy gappy_world))))
        (model_path ''impute_models'' ''a'')) = Some [''c'']"
  by (simp add: run_defs gappy_world_def gappy_def)

lemma gappy_feature_missing: "map_option null_count (get_col gappy ''c'') = Some 1"
  by (simp add: get_col_def columns_named_def null_count_def gappy_def)

lemma gappy_X_missing:
  "loc gappy (map (\<lambda>x. x = None) (cells (hd (columns gappy)))) [''c''] =
     Inr \<lparr>nrows = 1, columns = [\<lparr>cname = ''c'', ctype = Object, cells = [None]\<rparr>]\<rparr>"
  by (simp add: run_defs gappy_def)

lemma gappy_run_a:
  "result_cells (fill_null_ML table_learner 0 ''impute_models'' gappy_world) ''a'' =
     Some [Some (Num 1), Some (Num 1), Some (Num 2), Some (Num 3), Some (Num 4), Some (Num 5),
           Some (Num 6), Some (Num 7), Some (Num 8), Some (Num 9), Some (Num 10)]"
  by (simp add: run_defs gappy_world_def gappy_def)

lemma doubled_rating: "labeled_rows doubled ''rating'' = 2"
  by (simp add: run_defs doubled_def)

lemma doubled_rating_col: "map_option null_count (get_col doubled ''rating'') = Some 1"
  by (simp add: get_col_def columns_named_def null_count_def doubled_def)

lemma doubled_train_rating:
  "fst (train_imputation_model table_learner 0 ''rating'' ''impute_models'' doubled_world)
     = Inl ValueError"
  by (simp add: run_defs doubled_world_def doubled_def)

lemma doubled_y: "map null_count (columns_named doubled ''y'') = [0, 0]"
  by (simp add: columns_named_def null_count_def doubled_def)

lemma doubled_artifact: "files doubled_world (model_path ''impute_models'' ''y'') \<noteq> None"
  by (simp add: doubled_world_def)

lemma doubled_impute_y:
  "fst (impute_missing_values table_learner 0 ''y'' ''impute_models'' doubled_world)
     = Inl ValueError"
  by (simp add: run_defs doubled_world_def doubled_def)

section \<open>The orchestrator works on a copy and only fills missing cells\<close>

text \<open>
  C1. \<open>fill_null_ML\<close> operates on a copy. Whatever the outcome (a result or an exception),
  the dataframe object the caller passed holds exactly the cells it held before the call.
  When the call returns, it returns a new object, one that did not exist before the call,
  and that object is the input with missing cells of eligible columns filled in.
\<close>

theorem fill_null_ML_works_on_a_copy:
  assumes "deref w df_ref = Some d" and "fill_null_ML L df_ref model_dir w = (res, w')"
  shows "deref w' df_ref = Some d \<and>
         (\<forall>r'. res = Inr r' \<longrightarrow>
            r' \<noteq> df_ref \<and> deref w r' = None \<and>
            (\<exists>d'. deref w' r' = Some d' \<and> frame_fills (set (eligible_cols d)) d d'))"
proof -
  note e = fill_null_ML_effect [OF assms]
  have valid: "df_ref < length (heap w)"
    using assms(1) by (auto simp: deref_def split: if_splits)
  from e(3) obtain d' where d': "deref w' (length (heap w)) = Some d'"
    and f: "frame_fills {t \<in> set (eligible_cols d). 10 \<le> labeled_rows d t} d d'"
    by blast
  from f have f': "frame_fills (set (eligible_cols d)) d d'"
    by (rule frame_fills_mono) simp
  have fresh: "deref w (length (heap w)) = None"
    by (simp add: deref_def)
  show ?thesis
  proof (intro conjI allI impI)
    show "deref w' df_ref = Some d" by (rule e(1))
  next
    fix r' assume "res = Inr r'"
    then have r': "r' = length (heap w)" by (rule e(2))
    with valid show "r' \<noteq> df_ref" by simp
    from r' fresh show "deref w r' = None" by simp
    from r' d' f' show "\<exists>d'. deref w' r' = Some d' \<and> frame_fills (set (eligible_cols d)) d d'"
      by blast
  qed
qed

theorem fill_null_ML_works_on_a_copy_witness:
  "deref studio 0 = Some videos \<and>
   fst (fill_null_ML table_learner 0 ''impute_models'' studio) = Inr 1 \<and>
   deref (snd (fill_null_ML table_learner 0 ''impute_models'' studio)) 0 = Some videos \<and>
   deref studio 1 = None \<and>
   (\<exists>d'. deref (snd (fill_null_ML table_learner 0 ''impute_models'' studio)) 1 = Some d' \<and>
         frame_fills (set (eligible_cols videos)) videos d')"
proof -
  have run: "fill_null_ML table_learner 0 ''impute_models'' studio =
      (Inr 1, snd (fill_null_ML table_learner 0 ''impute_models'' studio))"
    using studio_run by (simp add: prod_eq_iff)
  from fill_null_ML_works_on_a_copy [OF studio_deref run] studio_deref studio_run
  show ?thesis by simp
qed

text \<open>
  C2. When \<open>fill_null_ML\<close> returns, the result has at least as many non-missing cells as
  the input, and every column without a missing value is the very same column (name,
  dtype and cells) in the result. One call of \<open>impute_missing_values\<close> changes the target
  column only where it was missing: every other column of the dataframe, every cell of the
  target that held a value, and every other object stay as they were.
\<close>

theorem imputation_only_fills_missing_cells:
  assumes "deref w df_ref = Some d"
  shows "(fill_null_ML L df_ref model_dir w = (Inr r', w') \<longrightarrow>
            (\<exists>d'. deref w' r' = Some d' \<and> present_count d \<le> present_count d' \<and>
                  length (columns d') = length (columns d) \<and>
                  (\<forall>i < length (columns d).
                      null_count (columns d ! i) = 0 \<longrightarrow> columns d' ! i = columns d ! i))) \<and>
         (impute_missing_values L df_ref target_column model_dir w = (res, w'') \<longrightarrow>
            (\<exists>d''. deref w'' df_ref = Some d'' \<and> frame_fills {target_column} d d'' \<and>
                   (\<forall>a. a \<noteq> df_ref \<longrightarrow> deref w'' a = deref w a)))"
proof (intro conjI impI)
  assume run: "fill_null_ML L df_ref model_dir w = (Inr r', w')"
  from fill_null_ML_effect(2) [OF assms run] have r': "r' = length (heap w)"
    by simp
  with fill_null_ML_effect(3) [OF assms run] obtain d' where
    d': "deref w' r' = Some d'"
    and f: "frame_fills {t \<in> set (eligible_cols d). 10 \<le> labeled_rows d t} d d'"
    by blast
  from frame_fills_present_count [OF f] frame_fills_complete [OF f] d'
  show "\<exists>d'. deref w' r' = Some d' \<and> present_count d \<le> present_count d' \<and>
          length (columns d') = length (columns d) \<and>
          (\<forall>i < length (columns d).
              null_count (columns d ! i) = 0 \<longrightarrow> columns d' ! i = columns d ! i)"
    by blast
next
  assume im: "impute_missing_values L df_ref target_column model_dir w = (res, w'')"
  from impute_fills [OF im assms] obtain d'' where
    "deref w'' df_ref = Some d''" "frame_fills {target_column} d d''"
    by blast
  moreover have "deref w'' a = deref w a" if "a \<noteq> df_ref" for a
    using impute_heap_frame [OF im, of a] that by (simp add: deref_def)
  ultimately show "\<exists>d''. deref w'' df_ref = Some d'' \<and> frame_fills {target_column} d d'' \<and>
                   (\<forall>a. a \<noteq> df_ref \<longrightarrow> deref w'' a = deref w a)"
    by blast
qed

theorem imputation_only_fills_missing_cells_witness:
  "deref studio 0 = Some videos \<and>
   fst (fill_null_ML table_learner 0 ''impute_models'' studio) = Inr 1 \<and>
   (\<exists>d'. deref (snd (fill_null_ML table_learner 0 ''impute_models'' studio)) 1 = Some d' \<and>
         present_count videos \<le> present_count d' \<and>
         length (columns d') = length (columns videos) \<and>
         columns d' ! 0 = columns videos ! 0) \<and>
   (\<exists>d''. deref (snd (impute_missing_values table_learner 0 ''likes'' ''impute_models''
              (snd (train_imputation_model table_learner 0 ''likes'' ''impute_models'' studio)))) 0
            = Some d'' \<and>
          frame_fills {''likes''} videos d'')"
proof -
  let ?W = "snd (train_imputation_model table_learner 0 ''likes'' ''impute_models'' studio)"
  have run: "fill_null_ML table_learner 0 ''impute_models'' studio =
      (Inr 1, snd (fill_null_ML table_learner 0 ''impute_models'' studio))"
    using studio_run by (simp add: prod_eq_iff)
  have im: "impute_missing_values table_learner 0 ''likes'' ''impute_models'' ?W =
      (fst (impute_missing_values table_learner 0 ''likes'' ''impute_models'' ?W),
       snd (impute_missing_values table_learner 0 ''likes'' ''impute_models'' ?W))"
    by simp
  from imputation_only_fills_missing_cells [OF studio_deref, THEN conjunct1, rule_format, OF run]
    videos_views_complete
  have 1: "\<exists>d'. deref (snd (fill_null_ML table_learner 0 ''impute_models'' studio)) 1 = Some d' \<and>
         present_count videos \<le> present_count d' \<and>
         length (columns d') = length (columns videos) \<and>
         columns d' ! 0 = columns videos ! 0"
    by blast
  from imputation_only_fills_missing_cells [OF studio_trained_deref, THEN conjunct2, rule_format, OF im]
  have 2: "\<exists>d''. deref (snd (impute_missing_values table_learner 0 ''likes'' ''impute_models'' ?W)) 0
            = Some d'' \<and> frame_fills {''likes''} videos d''"
    by blast
  from 1 2 studio_deref studio_run show ?thesis by simp
qed

section \<open>Clamping of numeric predictions\<close>



section \<open>Fewer than ten labelled rows\<close>

text \<open>
  C4, as the code has it. Let the target be a column of the dataset with fewer than 10
  labelled rows (rows with a non-missing target value once the fully-empty rows are
  dropped). If the column names of the dataset are pairwise distinct and the model
  directory can be created (it is not the empty path and the system does not refuse it),
  then \<open>train_imputation_model\<close> returns no model and raises nothing, and it writes no
  artifact: the stored files are as before. For every dataset and model directory, when
  \<open>fill_null_ML\<close> returns, the column is exactly as it was in the input, so its missing
  values are still missing.
\<close>

theorem too_few_labeled_rows_skips_column:
  assumes "deref w df_ref = Some d" and "get_col d target_column = Some tc"
    and "labeled_rows d target_column < 10"
  shows "(distinct (map cname (columns d)) \<and> model_dir \<noteq> [] \<and> model_dir \<notin> unwritable w \<longrightarrow>
            fst (train_imputation_model L df_ref target_column model_dir w) = Inr None \<and>
            files (snd (train_imputation_model L df_ref target_column model_dir w)) = files w) \<and>
         (fill_null_ML L df_ref model_dir w = (Inr r', w') \<longrightarrow>
            (\<exists>d'. deref w' r' = Some d' \<and> get_col d' target_column = Some tc))"
proof (intro conjI impI)
  assume pre: "distinct (map cname (columns d)) \<and> model_dir \<noteq> [] \<and> model_dir \<notin> unwritable w"
  show none: "fst (train_imputation_model L df_ref target_column model_dir w) = Inr None"
    using assms(1) pre assms(2) pre assms(3)
    by (intro train_few_rows [where d = d and tc = tc]) simp_all
  then show "files (snd (train_imputation_model L df_ref target_column model_dir w)) = files w"
    by (rule train_none_files)
next
  assume run: "fill_null_ML L df_ref model_dir w = (Inr r', w')"
  let ?T = "{t \<in> set (eligible_cols d). 10 \<le> labeled_rows d t}"
  from fill_null_ML_effect(2) [OF assms(1) run] have "r' = length (heap w)" by simp
  with fill_null_ML_effect(3) [OF assms(1) run] obtain d' where
    d': "deref w' r' = Some d'" and f: "frame_fills ?T d d'"
    by blast
  have "target_column \<notin> ?T" using assms(3) by simp
  with f have "get_col d' target_column = get_col d target_column"
    by (rule get_col_fills_other)
  with d' assms(2) show "\<exists>d'. deref w' r' = Some d' \<and> get_col d' target_column = Some tc"
    by simp
qed

theorem too_few_labeled_rows_skips_column_witness:
  "deref studio 0 = Some videos \<and>
   get_col videos ''rating'' = Some (columns videos ! 3) \<and>
   labeled_rows videos ''rating'' = 6 \<and>
   distinct (map cname (columns videos)) \<and>
   ''impute_models'' \<notin> unwritable studio \<and>
   fst (train_imputation_model table_learner 0 ''rating'' ''impute_models'' studio) = Inr None \<and>
   files (snd (train_imputation_model table_learner 0 ''rating'' ''impute_models'' studio))
     = files studio \<and>
   fst (fill_null_ML table_learner 0 ''impute_models'' studio) = Inr 1 \<and>
   (\<exists>d'. deref (snd (fill_null_ML table_learner 0 ''impute_models'' studio)) 1 = Some d' \<and>
         get_col d' ''rating'' = Some (columns videos ! 3))"
proof -
  have run: "fill_null_ML table_learner 0 ''impute_models'' studio =
      (Inr 1, snd (fill_null_ML table_learner 0 ''impute_models'' studio))"
    using studio_run by (simp add: prod_eq_iff)
  note inst = too_few_labeled_rows_skips_column
         [OF studio_deref videos_rating_col videos_rating_few,
          of "''impute_models''" table_learner 1
             "snd (fill_null_ML table_learner 0 ''impute_models'' studio)"]
  from inst have 1: "fst (train_imputation_model table_learner 0 ''rating'' ''impute_models'' studio)
        = Inr None \<and>
      files (snd (train_imputation_model table_learner 0 ''rating'' ''impute_models'' studio))
        = files studio"
    using videos_distinct studio_creatable by blast
  from inst run have 2:
    "\<exists>d'. deref (snd (fill_null_ML table_learner 0 ''impute_models'' studio)) 1 = Some d' \<and>
         get_col d' ''rating'' = Some (columns videos ! 3)"
    by blast
  from 1 2 studio_deref videos_rating_col videos_rating videos_distinct studio_creatable
    studio_run
  show ?thesis by blast
qed

text \<open>
  C4, as stated, fails. In \<open>doubled\<close> the target \<open>rating\<close> has two labelled rows, and the
  training step raises ValueError on the shared name \<open>x\<close> at line 30, before it counts the
  rows. In \<open>videos\<close> the target \<open>rating\<close> has six labelled rows, and the training step
  raises at line 21 with the empty path as model directory, and on a system that refuses
  to create the directory.
\<close>

theorem train_raises_before_counting_rows:
  "map_option null_count (get_col doubled ''rating'') = Some 1 \<and>
   labeled_rows doubled ''rating'' = 2 \<and>
   fst (train_imputation_model table_learner 0 ''rating'' ''impute_models'' doubled_world)
     = Inl ValueError \<and>
   labeled_rows videos ''rating'' = 6 \<and>
   fst (train_imputation_model table_learner 0 ''rating'' [] studio) = Inl FileNotFoundError \<and>
   fst (train_imputation_model table_learner 0 ''rating'' ''impute_models'' locked_studio)
     = Inl OSError"
  using doubled_rating_col doubled_rating doubled_train_rating videos_rating
    studio_train_empty_dir locked_studio_train
  by blast

section \<open>The features at imputation time\<close>

text \<open>
  C5. The statement that a column is imputed only from feature columns that are fully
  populated in the dataframe at the moment of prediction does not hold on a dataframe with
  a fully-empty row. On \<open>gappy\<close> the training step for \<open>a\<close> drops the empty first row, so
  \<open>c\<close> counts as complete and is the one feature of the artifact (ten labelled rows); the
  imputation step then works on the dataframe with the row still in it, where \<open>c\<close> has a
  missing value: the feature matrix handed to the estimator for the missing position of
  \<open>a\<close> is the single missing cell of \<open>c\<close>, and the prediction made from it is written.
\<close>

theorem imputes_from_feature_with_missing_value:
  "get_col gappy ''a'' = Some (hd (columns gappy)) \<and>
   features_of (dropna_all gappy) ''a'' = [''c''] \<and>
   labeled_rows gappy ''a'' = 10 \<and>
   map_option feature_names_in
     (files (snd (train_imputation_model table_learner 1 ''a'' ''impute_models''
                    (snd (alloc gappy gappy_world))))
        (model_path ''impute_models'' ''a'')) = Some [''c''] \<and>
   map_option null_count (get_col gappy ''c'') = Some 1 \<and>
   loc gappy (map (\<lambda>x. x = None) (cells (hd (columns gappy)))) [''c''] =
     Inr \<lparr>nrows = 1, columns = [\<lparr>cname = ''c'', ctype = Object, cells = [None]\<rparr>]\<rparr> \<and>
   result_cells (fill_null_ML table_learner 0 ''impute_models'' gappy_world) ''a'' =
     Some [Some (Num 1), Some (Num 1), Some (Num 2), Some (Num 3), Some (Num 4), Some (Num 5),
           Some (Num 6), Some (Num 7), Some (Num 8), Some (Num 9), Some (Num 10)]"
proof -
  have "get_col gappy ''a'' = Some (hd (columns gappy))"
    by (simp add: get_col_def columns_named_def gappy_def)
  with gappy_features gappy_labeled gappy_artifact gappy_feature_missing gappy_X_missing
    gappy_run_a
  show ?thesis by blast
qed

section \<open>Which columns are imputation targets\<close>

text \<open>
  C6, as the code has it. The imputation targets are exactly the columns that have at
  least one missing value, whose name no other column has, and whose dtype is numeric or
  object, in column order. When \<open>fill_null_ML\<close> returns, every target with at least 10
  labelled rows is complete in the result and an artifact is stored for it, and every
  other column, whatever its dtype and its missing values, is the very same column in the
  result.
\<close>

theorem fill_null_ML_imputes_exactly_the_targets:
  assumes "deref w df_ref = Some d" and "fill_null_ML L df_ref model_dir w = (Inr r', w')"
  shows "eligible_cols d = map cname (filter (is_target d) (columns d)) \<and>
         (\<exists>d'. deref w' r' = Some d' \<and> length (columns d') = length (columns d) \<and>
            (\<forall>i < length (columns d).
               if is_target d (columns d ! i) \<and> 10 \<le> labeled_rows d (cname (columns d ! i))
               then null_count (columns d' ! i) = 0 \<and>
                    files w' (model_path model_dir (cname (columns d ! i))) \<noteq> None
               else columns d' ! i = columns d ! i))"
proof -
  let ?T = "{t \<in> set (eligible_cols d). 10 \<le> labeled_rows d t}"
  note e = fill_null_ML_effect [OF assms]
  from e(2) have r': "r' = length (heap w)" by simp
  with e(3) obtain d' where d': "deref w' r' = Some d'" and f: "frame_fills ?T d d'"
    by blast
  from f have "list_all2 (column_fills ?T) (columns d) (columns d')"
    by (simp add: frame_fills_def)
  then have len: "length (columns d') = length (columns d)"
    by (simp add: list_all2_lengthD)
  have each: "if is_target d (columns d ! i) \<and> 10 \<le> labeled_rows d (cname (columns d ! i))
       then null_count (columns d' ! i) = 0 \<and>
            files w' (model_path model_dir (cname (columns d ! i))) \<noteq> None
       else columns d' ! i = columns d ! i"
    if i: "i < length (columns d)" for i
  proof (cases "is_target d (columns d ! i) \<and> 10 \<le> labeled_rows d (cname (columns d ! i))")
    case True
    from i have mem: "columns d ! i \<in> set (columns d)" by simp
    from True eligible_name_is_target [OF mem]
    have el: "cname (columns d ! i) \<in> set (eligible_cols d)" by simp
    from e(4) [OF refl el] True r' d' obtain tc' where
      tc': "get_col d' (cname (columns d ! i)) = Some tc'" "null_count tc' = 0"
        "files w' (model_path model_dir (cname (columns d ! i))) \<noteq> None"
      by auto
    from result_column_at [OF f i tc'(1)] tc'(2,3) True show ?thesis by simp
  next
    case False
    from i have mem: "columns d ! i \<in> set (columns d)" by simp
    from False eligible_name_is_target [OF mem] have "cname (columns d ! i) \<notin> ?T"
      by auto
    with frame_fills_at [OF f i] have "columns d' ! i = columns d ! i"
      unfolding column_fills_def by blast
    with False show ?thesis by auto
  qed
  from d' len each show ?thesis
    by (auto simp: eligible_cols_targets)
qed

theorem fill_null_ML_imputes_exactly_the_targets_witness:
  "deref studio 0 = Some videos \<and>
   fst (fill_null_ML table_learner 0 ''impute_models'' studio) = Inr 1 \<and>
   eligible_cols videos = [''likes'', ''rating''] \<and>
   (\<exists>d'. deref (snd (fill_null_ML table_learner 0 ''impute_models'' studio)) 1 = Some d' \<and>
         null_count (columns d' ! 1) = 0 \<and>
         files (snd (fill_null_ML table_learner 0 ''impute_models'' studio))
           (model_path ''impute_models'' ''likes'') \<noteq> None \<and>
         columns d' ! 3 = columns videos ! 3 \<and>
         columns d' ! 4 = columns videos ! 4)"
proof -
  let ?out = "fill_null_ML table_learner 0 ''impute_models'' studio"
  have run: "?out = (Inr 1, snd ?out)"
    using studio_run by (simp add: prod_eq_iff)
  from fill_null_ML_imputes_exactly_the_targets [OF studio_deref run] obtain d' where
    d': "deref (snd ?out) 1 = Some d'"
    and each: "\<forall>i < length (columns videos).
       if is_target videos (columns videos ! i) \<and>
          10 \<le> labeled_rows videos (cname (columns videos ! i))
       then null_count (columns d' ! i) = 0 \<and>
            files (snd ?out) (model_path ''impute_models'' (cname (columns videos ! i))) \<noteq> None
       else columns d' ! i = columns videos ! i"
    by blast
  from each videos_targets videos_likes_labeled
  have 1: "null_count (columns d' ! 1) = 0 \<and>
      files (snd ?out) (model_path ''impute_models'' ''likes'') \<noteq> None"
    by (auto dest!: spec [of _ 1])
  from each videos_targets videos_rating
  have 3: "columns d' ! 3 = columns videos ! 3"
    by (auto dest!: spec [of _ 3])
  from each videos_targets
  have 4: "columns d' ! 4 = columns videos ! 4"
    by (auto dest!: spec [of _ 4])
  from d' 1 3 4 studio_deref studio_run videos_eligible show ?thesis by blast
qed

text \<open>
  C6, as stated, fails. In \<open>videos\<close> the column \<open>genre\<close> has dtype category, which
  \<open>detect_column_types\<close> puts among the categorical columns, and a missing value; it is a
  target by the statement and \<open>fill_null_ML\<close> does not select it. In \<open>doubled\<close> the two float
  columns named \<open>x\<close> have a missing value each and are targets by the statement;
  \<open>fill_null_ML\<close> selects neither, because \<^verbatim>\<open>df['x']\<close> is a dataframe.
\<close>

theorem category_and_shared_names_not_selected:
  "fst (detect_column_types videos) = [''title'', ''genre''] \<and>
   map_option null_count (get_col videos ''genre'') = Some 1 \<and>
   spec_targets videos = [''likes'', ''rating'', ''genre''] \<and>
   eligible_cols videos = [''likes'', ''rating''] \<and>
   map ctype (columns_named doubled ''x'') = [Float64, Float64] \<and>
   map null_count (columns_named doubled ''x'') = [1, 1] \<and>
   spec_targets doubled = [''x'', ''x'', ''rating''] \<and>
   eligible_cols doubled = [''rating'']"
  by (simp add: spec_targets_def detect_column_types_def eligible_cols_def get_col_def
      columns_named_def videos_def doubled_def null_count_def)

section \<open>The order in which columns are processed\<close>

text \<open>
  C7, as the code has it. Take any list of the eligible columns, in particular any
  permutation of the column order, and run the loop over it. When that run and
  \<open>fill_null_ML\<close> both return, the two results differ at most in the values imputed: in
  both, every eligible column with at least 10 labelled rows is complete, every cell that
  held a value in the input holds it, every other column is the input's column, and so
  the same cells are missing in both.
\<close>

theorem processing_order_changes_imputed_values_only:
  assumes "deref w df_ref = Some d" and "set order = set (eligible_cols d)"
    and "process_in_order L df_ref model_dir order w = (Inr r1, w1)"
    and "fill_null_ML L df_ref model_dir w = (Inr r2, w2)"
  shows "\<exists>d1 d2. deref w1 r1 = Some d1 \<and> deref w2 r2 = Some d2 \<and>
           frame_fills {t \<in> set (eligible_cols d). 10 \<le> labeled_rows d t} d d1 \<and>
           frame_fills {t \<in> set (eligible_cols d). 10 \<le> labeled_rows d t} d d2 \<and>
           (\<forall>i < length (columns d).
               cname (columns d ! i) \<in> set (eligible_cols d) \<and>
               10 \<le> labeled_rows d (cname (columns d ! i)) \<longrightarrow>
               null_count (columns d1 ! i) = 0 \<and> null_count (columns d2 ! i) = 0) \<and>
           missing_cells d1 = missing_cells d2"
proof -
  let ?T = "{t \<in> set (eligible_cols d). 10 \<le> labeled_rows d t}"
  note p = process_in_order_effect [OF assms(1,3)]
  note e = fill_null_ML_effect [OF assms(1,4)]
  from p(2) have r1: "r1 = length (heap w)" by simp
  from e(2) have r2: "r2 = length (heap w)" by simp
  from p(3) r1 assms(2) obtain d1 where d1: "deref w1 r1 = Some d1" "frame_fills ?T d d1"
    by auto
  from e(3) r2 obtain d2 where d2: "deref w2 r2 = Some d2" "frame_fills ?T d d2"
    by blast
  have full: "null_count (columns d1 ! i) = 0 \<and> null_count (columns d2 ! i) = 0"
    if i: "i < length (columns d)" and t: "cname (columns d ! i) \<in> ?T" for i
  proof -
    from t have el: "cname (columns d ! i) \<in> set (eligible_cols d)"
      and en: "10 \<le> labeled_rows d (cname (columns d ! i))" by simp_all
    from el assms(2) have "cname (columns d ! i) \<in> set order" by simp
    from p(4) [OF refl this en] r1 d1(1) obtain tc1 where
      "get_col d1 (cname (columns d ! i)) = Some tc1" "null_count tc1 = 0"
      by auto
    with result_column_at [OF d1(2) i] have 1: "null_count (columns d1 ! i) = 0" by simp
    from e(4) [OF refl el en] r2 d2(1) obtain tc2 where
      "get_col d2 (cname (columns d ! i)) = Some tc2" "null_count tc2 = 0"
      by auto
    with result_column_at [OF d2(2) i] have 2: "null_count (columns d2 ! i) = 0" by simp
    from 1 2 show ?thesis ..
  qed
  from missing_cells_equal [OF d1(2) d2(2) full] have "missing_cells d1 = missing_cells d2" .
  with d1 d2 full show ?thesis by auto
qed

theorem processing_order_changes_imputed_values_only_witness:
  "deref trio_world 0 = Some trio \<and>
   set [''b'', ''a''] = set (eligible_cols trio) \<and>
   fst (process_in_order table_learner 0 ''impute_models'' [''b'', ''a''] trio_world) = Inr 1 \<and>
   fst (fill_null_ML table_learner 0 ''impute_models'' trio_world) = Inr 1 \<and>
   (\<exists>d1 d2.
      deref (snd (process_in_order table_learner 0 ''impute_models'' [''b'', ''a''] trio_world)) 1
        = Some d1 \<and>
      deref (snd (fill_null_ML table_learner 0 ''impute_models'' trio_world)) 1 = Some d2 \<and>
      frame_fills {t \<in> set (eligible_cols trio). 10 \<le> labeled_rows trio t} trio d1 \<and>
      frame_fills {t \<in> set (eligible_cols trio). 10 \<le> labeled_rows trio t} trio d2 \<and>
      null_count (columns d1 ! 0) = 0 \<and> null_count (columns d2 ! 0) = 0 \<and>
      null_count (columns d1 ! 1) = 0 \<and> null_count (columns d2 ! 1) = 0 \<and>
      missing_cells d1 = missing_cells d2)"
proof -
  let ?T = "{t \<in> set (eligible_cols trio). 10 \<le> labeled_rows trio t}"
  have h2: "set [''b'', ''a''] = set (eligible_cols trio)"
    by (auto simp: trio_eligible)
  have h3: "process_in_order table_learner 0 ''impute_models'' [''b'', ''a''] trio_world =
      (Inr 1, snd (process_in_order table_learner 0 ''impute_models'' [''b'', ''a''] trio_world))"
    using trio_run_swapped by (simp add: prod_eq_iff)
  have h4: "fill_null_ML table_learner 0 ''impute_models'' trio_world =
      (Inr 1, snd (fill_null_ML table_learner 0 ''impute_models'' trio_world))"
    using trio_run by (simp add: prod_eq_iff)
  from processing_order_changes_imputed_values_only [OF trio_deref h2 h3 h4]
  obtain d1 d2 where
    r: "deref (snd (process_in_order table_learner 0 ''impute_models'' [''b'', ''a''] trio_world)) 1
        = Some d1"
      "deref (snd (fill_null_ML table_learner 0 ''impute_models'' trio_world)) 1 = Some d2"
      "frame_fills ?T trio d1" "frame_fills ?T trio d2" "missing_cells d1 = missing_cells d2"
    and full: "\<forall>i < length (columns trio).
        cname (columns trio ! i) \<in> set (eligible_cols trio) \<and>
        10 \<le> labeled_rows trio (cname (columns trio ! i)) \<longrightarrow>
        null_count (columns d1 ! i) = 0 \<and> null_count (columns d2 ! i) = 0"
    by blast
  have a: "0 < length (columns trio) \<and> cname (columns trio ! 0) = ''a'' \<and>
      1 < length (columns trio) \<and> cname (columns trio ! 1) = ''b''"
    by (simp add: trio_def)
  have la: "labeled_rows trio ''a'' = 10" by (simp add: run_defs trio_def)
  have lb: "labeled_rows trio ''b'' = 10" by (simp add: run_defs trio_def)
  from full a la trio_eligible
  have 0: "null_count (columns d1 ! 0) = 0 \<and> null_count (columns d2 ! 0) = 0"
    by (auto dest!: spec [of _ 0])
  from full a lb trio_eligible
  have 1: "null_count (columns d1 ! 1) = 0 \<and> null_count (columns d2 ! 1) = 0"
    by (auto dest!: spec [of _ 1])
  from r 0 1 trio_deref h2 trio_run_swapped trio_run show ?thesis by blast
qed

text \<open>
  C7, as stated, fails. On \<open>trio\<close> the column order is \<open>a\<close>, \<open>b\<close>. In that order \<open>a\<close> is
  complete when the model for \<open>b\<close> is trained, so the features of \<open>b\<close> are \<open>a\<close> and \<open>c\<close>;
  in the order \<open>b\<close>, \<open>a\<close> the only feature of \<open>b\<close> is \<open>c\<close>. With the lookup estimator the
  value imputed into \<open>b\<close> is 20 in the first order and 22 in the second.
\<close>

theorem processing_order_changes_result:
  "eligible_cols trio = [''a'', ''b''] \<and>
   result_cells (fill_null_ML table_learner 0 ''impute_models'' trio_world) ''b'' =
     Some [Some (Num 20), Some (Num 20), Some (Num 22), Some (Num 23), Some (Num 24),
           Some (Num 25), Some (Num 26), Some (Num 27), Some (Num 28), Some (Num 29),
           Some (Num 30)] \<and>
   result_cells (process_in_order table_learner 0 ''impute_models'' [''b'', ''a''] trio_world) ''b'' =
     Some [Some (Num 20), Some (Num 22), Some (Num 22), Some (Num 23), Some (Num 24),
           Some (Num 25), Some (Num 26), Some (Num 27), Some (Num 28), Some (Num 29),
           Some (Num 30)] \<and>
   result_cells (fill_null_ML table_learner 0 ''impute_models'' trio_world) ''b'' \<noteq>
     result_cells (process_in_order table_learner 0 ''impute_models'' [''b'', ''a''] trio_world) ''b'' \<and>
   map_option feature_names_in
     (files (snd (fill_null_ML table_learner 0 ''impute_models'' trio_world))
        (model_path ''impute_models'' ''b'')) = Some [''a'', ''c''] \<and>
   map_option feature_names_in
     (files (snd (process_in_order table_learner 0 ''impute_models'' [''b'', ''a''] trio_world))
        (model_path ''impute_models'' ''b'')) = Some [''c'']"
proof -
  have "result_cells (fill_null_ML table_learner 0 ''impute_models'' trio_world) ''b'' \<noteq>
     result_cells (process_in_order table_learner 0 ''impute_models'' [''b'', ''a''] trio_world) ''b''"
    unfolding trio_run_b trio_run_swapped_b by simp
  with trio_eligible trio_run_b trio_run_swapped_b trio_features_b trio_features_swapped_b
  show ?thesis by blast
qed

section \<open>Imputing without an artifact, and imputing a complete column\<close>

text \<open>
  C8. When no artifact \<^verbatim>\<open><model_dir>/<target_column>_model.pkl\<close> is stored,
  \<open>impute_missing_values\<close> raises nothing and returns the very dataframe it was given, with
  every object and file as before.
\<close>

theorem impute_without_artifact:
  "files w (model_path model_dir target_column) = None \<Longrightarrow>
     impute_missing_values L df_ref target_column model_dir w = (Inr df_ref, w)"
  by (simp add: impute_missing_values_def)

theorem impute_without_artifact_witness:
  "files studio (model_path ''impute_models'' ''likes'') = None \<and>
   impute_missing_values table_learner 0 ''likes'' ''impute_models'' studio = (Inr 0, studio)"
proof -
  have h: "files studio (model_path ''impute_models'' ''likes'') = None"
    by (simp add: studio_def)
  from impute_without_artifact [OF h, of table_learner 0] h show ?thesis by simp
qed

text \<open>
  C9, as the code has it. On a target name that names exactly one column of the
  dataframe, a column without a missing value, \<open>impute_missing_values\<close> is the identity: it
  returns the dataframe it was given and writes nothing, whether or not an artifact is
  stored for the column.
\<close>

theorem impute_complete_column_identity:
  "deref w df_ref = Some df \<Longrightarrow> get_col df target_column = Some tc \<Longrightarrow> null_count tc = 0 \<Longrightarrow>
     impute_missing_values L df_ref target_column model_dir w = (Inr df_ref, w)"
  by (simp add: impute_missing_values_def get_col_iff mask_sum_isnull split: option.splits)

theorem impute_complete_column_identity_witness:
  "deref studio_with_artifact 0 = Some videos \<and>
   map_option null_count (get_col videos ''views'') = Some 0 \<and>
   files studio_with_artifact (model_path ''impute_models'' ''views'') \<noteq> None \<and>
   impute_missing_values table_learner 0 ''views'' ''impute_models'' studio_with_artifact
     = (Inr 0, studio_with_artifact)"
proof -
  have h1: "deref studio_with_artifact 0 = Some videos"
    by (simp add: deref_def studio_with_artifact_def studio_def)
  have h2: "get_col videos ''views'' = Some (hd (columns videos))"
    by (simp add: get_col_def columns_named_def videos_def)
  have h3: "null_count (hd (columns videos)) = 0"
    by (simp add: null_count_def videos_def)
  have h4: "files studio_with_artifact (model_path ''impute_models'' ''views'') \<noteq> None"
    by (simp add: studio_with_artifact_def)
  from impute_complete_column_identity [OF h1 h2 h3, of table_learner "''impute_models''"]
    h1 h2 h3 h4
  show ?thesis by simp
qed

text \<open>
  C9, as stated, fails. In \<open>doubled\<close> the two columns named \<open>y\<close> have no missing value and
  an artifact for \<open>y\<close> is stored; \<^verbatim>\<open>df['y'].isnull()\<close> is a dataframe and the test of line 92
  raises ValueError.
\<close>

theorem impute_raises_on_shared_target_name:
  "deref doubled_world 0 = Some doubled \<and>
   map null_count (columns_named doubled ''y'') = [0, 0] \<and>
   files doubled_world (model_path ''impute_models'' ''y'') \<noteq> None \<and>
   fst (impute_missing_values table_learner 0 ''y'' ''impute_models'' doubled_world)
     = Inl ValueError"
proof -
  have "deref doubled_world 0 = Some doubled"
    by (simp add: deref_def doubled_world_def)
  with doubled_y doubled_artifact doubled_impute_y show ?thesis by blast
qed

section \<open>Training leaves the dataframe alone\<close>

text \<open>
  C10. \<open>train_imputation_model\<close> never mutates the dataframe passed to it: after the call,
  whatever its outcome, the caller's object and every other object that existed before are
  unchanged (dropping the empty rows makes a new object). On the file system it creates
  the model directory and changes no file other than
  \<^verbatim>\<open><model_dir>/<target_column>_model.pkl\<close>.
\<close>

theorem train_leaves_dataframe_untouched:
  "deref (snd (train_imputation_model L df_ref target_column model_dir w)) df_ref = deref w df_ref \<and>
   take (length (heap w)) (heap (snd (train_imputation_model L df_ref target_column model_dir w)))
     = heap w \<and>
   dirs (snd (train_imputation_model L df_ref target_column model_dir w))
     = insert model_dir (dirs w) \<and>
   (\<forall>p. p \<noteq> model_path model_dir target_column \<longrightarrow>
      files (snd (train_imputation_model L df_ref target_column model_dir w)) p = files w p)"
proof (intro conjI allI impI)
  show "deref (snd (train_imputation_model L df_ref target_column model_dir w)) df_ref
          = deref w df_ref"
  proof (cases "deref w df_ref")
    case None
    with train_heap [of L df_ref target_column model_dir w] show ?thesis
      by (auto simp: deref_def)
  next
    case (Some d)
    then show ?thesis by (simp add: deref_train)
  qed
  show "take (length (heap w))
          (heap (snd (train_imputation_model L df_ref target_column model_dir w))) = heap w"
    using train_heap [of L df_ref target_column model_dir w] by auto
  show "dirs (snd (train_imputation_model L df_ref target_column model_dir w))
          = insert model_dir (dirs w)"
    by (rule train_dirs)
next
  fix p assume "p \<noteq> model_path model_dir target_column"
  with train_files [of L df_ref target_column model_dir w]
  show "files (snd (train_imputation_model L df_ref target_column model_dir w)) p = files w p"
    by auto
qed

theorem train_leaves_dataframe_untouched_witness:
  "deref (snd (train_imputation_model table_learner 0 ''likes'' ''impute_models'' studio)) 0
     = Some videos \<and>
   take 1 (heap (snd (train_imputation_model table_learner 0 ''likes'' ''impute_models'' studio)))
     = [videos] \<and>
   dirs (snd (train_imputation_model table_learner 0 ''likes'' ''impute_models'' studio))
     = {''impute_models''} \<and>
   files (snd (train_imputation_model table_learner 0 ''likes'' ''impute_models'' studio))
     ''elsewhere.pkl'' = None \<and>
   files (snd (train_imputation_model table_learner 0 ''likes'' ''impute_models'' studio))
     (model_path ''impute_models'' ''likes'') \<noteq> None"
proof -
  have s: "heap studio = [videos]" "dirs studio = {}" "files studio ''elsewhere.pkl'' = None"
    by (simp_all add: studio_def)
  from train_leaves_dataframe_untouched [of table_learner 0 "''likes''" "''impute_models''" studio]
    elsewhere s studio_deref studio_train_likes
  show ?thesis by simp
qed

end
